theory Spec2Isabelle
  imports Complex_Main
begin

section \<open>The two external object models\<close>

text \<open>
  The connector pairs display objects of a scene with rigid bodies of a physics world.
  Both object models are third-party; the theory records of them what the connector
  reads and writes. A JavaScript number is a \<open>num\<close>, here a real: the properties below
  compare the connector's arithmetic expressions with the same expressions. The one
  place where rounding decides a property, the numbers a new body keeps of its
  descriptor, is a parameter of the library (\<open>storedTranslation\<close>, \<open>storedRotation\<close>).
\<close>

type_synonym num = real

type_synonym Vector2 = "num \<times> num"

datatype RigidBodyType = Dynamic | Fixed | KinematicPositionBased | KinematicVelocityBased

text \<open>The shape kinds of the physics library. \<open>BallShape\<close> is the library's \<open>Ball\<close>.\<close>

datatype ShapeType =
  BallShape | Cuboid | Capsule | Segment | Polyline | Triangle | TriMesh | HeightField
  | ConvexPolygon | RoundCuboid | RoundTriangle | RoundConvexPolygon | HalfSpace

text \<open>
  Collider descriptors, named after the factory functions that build them:
  \<open>ball radius\<close>, \<open>capsule halfHeight radius\<close>, \<open>cuboid hx hy\<close>, \<open>triangle a b c\<close>,
  \<open>roundCuboid hx hy borderRadius\<close>, \<open>roundTriangle a b c borderRadius\<close>.
\<close>

datatype ColliderDesc =
  ball num
  | capsule num num
  | cuboid num num
  | triangle Vector2 Vector2 Vector2
  | roundCuboid num num num
  | roundTriangle Vector2 Vector2 Vector2 num
  | segment Vector2 Vector2
  | convexHull "Vector2 list"

text \<open>The option \<open>collider?: RAPIER.ColliderDesc | RAPIER.ShapeType\<close>: a descriptor or a number.\<close>

datatype ColliderOption = IsDesc ColliderDesc | IsShapeType ShapeType

text \<open>A display object (\<open>Phaser.GameObjects.Image\<close>), held in the scene by reference.\<close>

record GameObject =
  x :: num
  y :: num
  rotation :: num
  displayWidth :: num
  displayHeight :: num
  originX :: num
  destroyed :: bool

record RigidBodyDesc =
  status :: RigidBodyType
  desc_translation :: Vector2
  desc_rotation :: num
  desc_userData :: "nat option"

record RigidBody =
  bodyType :: RigidBodyType
  translation :: Vector2
  rotation :: num
  nextKinematicTranslation :: "Vector2 option"
  nextKinematicRotation :: "num option"
  userData :: "nat option"

text \<open>
  A collider keeps the value it was created from; \<open>parent\<close> is the handle of its body.
\<close>

record Collider =
  shape :: ColliderOption
  parent :: nat
  rotation :: num

text \<open>
  The physics world: its gravity, bodies and colliders by handle, the handles that are
  in the simulation, and the next handles to hand out.
\<close>

record World =
  gravity :: Vector2
  rigidBodies :: "nat \<Rightarrow> RigidBody"
  colliders :: "nat \<Rightarrow> Collider"
  bodyHandles :: "nat list"
  colliderHandles :: "nat list"
  nextBody :: nat
  nextCollider :: nat

datatype error = TypeError

text \<open>
  What the physics library computes on its own is a parameter of the model: the
  simulation step (with or without an event queue), the collision events a queue hands
  out when drained, the debug geometry, whether \<open>createCollider\<close> goes through when
  it is handed a bare shape-kind number instead of a descriptor object, and the form in
  which a new body keeps the translation and the rotation of its descriptor, that is,
  what \<open>translation()\<close> and \<open>rotation()\<close> give back for them (the library keeps 32-bit
  floats, not the numbers it was handed).
\<close>

record Rapier =
  step :: "nat option \<Rightarrow> World \<Rightarrow> World"
  collisionEvents :: "nat \<Rightarrow> World \<Rightarrow> (nat \<times> nat \<times> bool) list"
  debugRender :: "World \<Rightarrow> num list \<times> num list"
  numberAccepted :: "ShapeType \<Rightarrow> bool"
  storedTranslation :: "Vector2 \<Rightarrow> Vector2"
  storedRotation :: "num \<Rightarrow> num"

definition dynamic :: RigidBodyDesc where
  "dynamic = \<lparr>status = Dynamic, desc_translation = (0, 0), desc_rotation = 0, desc_userData = None\<rparr>"

definition fixed :: RigidBodyDesc where
  "fixed = \<lparr>status = Fixed, desc_translation = (0, 0), desc_rotation = 0, desc_userData = None\<rparr>"

definition kinematicPositionBased :: RigidBodyDesc where
  "kinematicPositionBased =
     \<lparr>status = KinematicPositionBased, desc_translation = (0, 0), desc_rotation = 0,
      desc_userData = None\<rparr>"

definition kinematicVelocityBased :: RigidBodyDesc where
  "kinematicVelocityBased =
     \<lparr>status = KinematicVelocityBased, desc_translation = (0, 0), desc_rotation = 0,
      desc_userData = None\<rparr>"

definition setTranslation :: "num \<Rightarrow> num \<Rightarrow> RigidBodyDesc \<Rightarrow> RigidBodyDesc" where
  "setTranslation tx ty d = d\<lparr>desc_translation := (tx, ty)\<rparr>"

definition setRotation :: "num \<Rightarrow> RigidBodyDesc \<Rightarrow> RigidBodyDesc" where
  "setRotation r d = d\<lparr>desc_rotation := r\<rparr>"

definition setUserData :: "nat \<Rightarrow> RigidBodyDesc \<Rightarrow> RigidBodyDesc" where
  "setUserData u d = d\<lparr>desc_userData := Some u\<rparr>"

text \<open>
  \<open>world.createRigidBody(desc)\<close>: a new body of the descriptor's kind, with the
  descriptor's translation and rotation in the form the library keeps them.
\<close>

definition createRigidBody :: "Rapier \<Rightarrow> RigidBodyDesc \<Rightarrow> World \<Rightarrow> nat \<times> World" where
  "createRigidBody eng d w =
     (let h = nextBody w in
      (h, w\<lparr>rigidBodies := (rigidBodies w)
                (h := \<lparr>bodyType = status d,
                        translation = storedTranslation eng (desc_translation d),
                        rotation = storedRotation eng (desc_rotation d),
                        nextKinematicTranslation = None,
                        nextKinematicRotation = None, userData = desc_userData d\<rparr>),
             bodyHandles := h # bodyHandles w,
             nextBody := Suc h\<rparr>))"

text \<open>
  \<open>world.createCollider(desc, parent)\<close>. A descriptor gives a collider attached to the
  parent. For a bare number the library decides (\<open>numberAccepted\<close>): either it raises,
  or the collider is made of the number as it stands.
\<close>

definition createCollider :: "Rapier \<Rightarrow> ColliderOption \<Rightarrow> nat \<Rightarrow> World \<Rightarrow> error + nat \<times> World" where
  "createCollider eng d p w =
     (let c = nextCollider w;
          w' = w\<lparr>colliders := (colliders w)
                    (c := \<lparr>shape = d, parent = p, rotation = RigidBody.rotation (rigidBodies w p)\<rparr>),
                 colliderHandles := c # colliderHandles w,
                 nextCollider := Suc c\<rparr>
      in case d of
           IsDesc _ \<Rightarrow> Inr (c, w')
         | IsShapeType k \<Rightarrow> if numberAccepted eng k then Inr (c, w') else Inl TypeError)"

text \<open>\<open>world.removeRigidBody(body)\<close> takes the body and its colliders out of the simulation.\<close>

definition removeRigidBody :: "nat \<Rightarrow> World \<Rightarrow> World" where
  "removeRigidBody h w =
     w\<lparr>bodyHandles := removeAll h (bodyHandles w),
       colliderHandles := filter (\<lambda>c. parent (colliders w c) \<noteq> h) (colliderHandles w)\<rparr>"

definition isFixed :: "RigidBody \<Rightarrow> bool" where
  "isFixed b = (bodyType b = Fixed)"

definition isKinematic :: "RigidBody \<Rightarrow> bool" where
  "isKinematic b = (bodyType b = KinematicPositionBased \<or> bodyType b = KinematicVelocityBased)"

section \<open>The connector's state\<close>

record TPhysicsObject =
  rigidBody :: nat
  collider :: nat
  gameObject :: nat

record TRidgiBodyObject = TPhysicsObject +
  phaserTransformations :: bool

record TAddRigidBodyConfig =
  body :: nat
  rigidBodyType :: "RigidBodyType option"
  colliderDesc :: "ColliderOption option"
  cfg_phaserTransformations :: "bool option"

record TRapierOptions =
  opt_rigidBodyType :: "RigidBodyType option"
  opt_collider :: "ColliderOption option"
  opt_phaserTransformations :: "bool option"

datatype Color = GetColor "num option" "num option" "num option"

text \<open>
  Calls that leave the connector, in program order: the console, the drawing surface,
  and the calls on the world, the queue and the display object that free something.
\<close>

datatype Call =
  ConsoleError string
  | ConsoleLog nat
  | WorldStep "nat option"
  | RemoveRigidBody nat
  | GameObjectDestroy nat
  | NewEventQueue nat
  | EventQueueFree nat
  | GraphicsClear
  | LineStyle num Color "num option"
  | LineBetween "num option" "num option" "num option" "num option"

text \<open>
  The variables closed over by \<open>createRapierPhysics\<close> (\<open>world\<close>, \<open>bodies\<close>,
  \<open>debugEnabled\<close>, \<open>eventQueue\<close>), the scene's display objects by reference, the number
  of queue objects made so far, and the calls made so far.
\<close>

record Adapter =
  scene :: "nat \<Rightarrow> GameObject"
  world :: World
  bodies :: "TRidgiBodyObject list"
  debugEnabled :: bool
  eventQueue :: "nat option"
  queuesCreated :: nat
  trace :: "Call list"

section \<open>Attaching: \<open>addRidgiBody\<close> and \<open>addRigidBody\<close>\<close>

text \<open>
  The shape part of \<open>addRidgiBody\<close> (the assignments to \<open>_colliderDesc\<close> and the chain of
  comparisons on a number): the value later handed to \<open>createCollider\<close>, and the console
  calls made on the way. When the option is given, \<open>_colliderDesc\<close> starts as the option
  itself; each of the first six branches overwrites it, the other branches only log.
\<close>

definition colliderDescFor :: "GameObject \<Rightarrow> ColliderOption option \<Rightarrow> ColliderOption \<times> Call list" where
  "colliderDescFor b cd =
     (let d0 = (case cd of
                  None \<Rightarrow> IsDesc (cuboid (displayWidth b / 2) (displayHeight b / 2))
                | Some c \<Rightarrow> c)
      in case cd of
           Some (IsShapeType k) \<Rightarrow>
             if k = BallShape then (IsDesc (ball (displayWidth b / 2)), [])
             else if k = Capsule then
               (IsDesc (capsule (displayWidth b / 4) (displayWidth b / 2)), [])
             else if k = Cuboid then
               (IsDesc (cuboid (displayWidth b / 2) (displayHeight b / 2)), [])
             else if k = Triangle then
               (let halfWidth = displayWidth b / 2; halfHeight = displayHeight b / 2;
                    vertexA = (0, - halfHeight); vertexB = (- halfWidth, halfHeight);
                    vertexC = (halfWidth, halfHeight)
                in (IsDesc (triangle vertexA vertexB vertexC), []))
             else if k = RoundCuboid then
               (IsDesc (roundCuboid (displayWidth b / 2) (displayHeight b / 2) 5), [])
             else if k = RoundTriangle then
               (let halfWidth = displayWidth b / 2; halfHeight = displayHeight b / 2;
                    vertexA = (0, - halfHeight); vertexB = (- halfWidth, halfHeight);
                    vertexC = (halfWidth, halfHeight)
                in (IsDesc (roundTriangle vertexA vertexB vertexC 5), []))
             else if k = TriMesh then
               (d0, [ConsoleError ''TriMesh not implemented, please use a ColliderDesc object''])
             else if k = HalfSpace then
               (d0, [ConsoleError ''HeightSpace not implemented, please use a ColliderDesc object''])
             else if k = Segment then
               (d0, [ConsoleError ''Segment not implemented, please use a ColliderDesc object''])
             else if k = ConvexPolygon then
               (d0, [ConsoleError ''ConvexPolygon not implemented, please use a ColliderDesc object''])
             else if k = RoundConvexPolygon then
               (d0, [ConsoleError
                       ''RoundConvexPolygon not implemented, please use a ColliderDesc object''])
             else (d0, [])
         | _ \<Rightarrow> (d0, []))"

text \<open>The \<open>switch\<close> on the body type, then the three setters.\<close>

definition rigidBodyDescFor :: "GameObject \<Rightarrow> nat \<Rightarrow> RigidBodyType option \<Rightarrow> RigidBodyDesc" where
  "rigidBodyDescFor b ref t =
     (let rigidBodyDesc =
            (case t of
               Some Dynamic \<Rightarrow> dynamic
             | Some Fixed \<Rightarrow> fixed
             | Some KinematicPositionBased \<Rightarrow> kinematicPositionBased
             | Some KinematicVelocityBased \<Rightarrow> kinematicVelocityBased
             | None \<Rightarrow> dynamic)
      in setUserData ref (setRotation (GameObject.rotation b) (setTranslation (x b) (y b) rigidBodyDesc)))"

text \<open>
  \<open>addRidgiBody\<close>: the console calls, then \<open>createRigidBody\<close>, then \<open>createCollider\<close>.
  An exception of \<open>createCollider\<close> leaves the function with the body already created.
\<close>

definition addRidgiBody :: "Rapier \<Rightarrow> TAddRigidBodyConfig \<Rightarrow> Adapter \<Rightarrow> (error + TRidgiBodyObject) \<times> Adapter" where
  "addRidgiBody eng cfg s =
     (let b = scene s (body cfg);
          (d, logged) = colliderDescFor b (colliderDesc cfg);
          s1 = s\<lparr>trace := trace s @ logged\<rparr>;
          (rb, w1) = createRigidBody eng
                       (rigidBodyDescFor b (body cfg) (rigidBodyType cfg)) (world s1);
          s2 = s1\<lparr>world := w1\<rparr>
      in case createCollider eng d rb w1 of
           Inl e \<Rightarrow> (Inl e, s2)
         | Inr (c, w2) \<Rightarrow>
             (Inr \<lparr>rigidBody = rb, collider = c, gameObject = body cfg,
                   phaserTransformations =
                     (case cfg_phaserTransformations cfg of None \<Rightarrow> False | Some p \<Rightarrow> p)\<rparr>,
              s2\<lparr>world := w2\<rparr>))"

text \<open>
  The public \<open>addRigidBody\<close>: the options may be missing altogether (\<open>configOf\<close> is
  the object it passes on); the new record goes to the front of \<open>bodies\<close> (\<open>unshift\<close>).
\<close>

definition configOf :: "nat \<Rightarrow> TRapierOptions option \<Rightarrow> TAddRigidBodyConfig" where
  "configOf g rapierOptions =
     \<lparr>body = g,
      rigidBodyType = (case rapierOptions of None \<Rightarrow> None | Some ro \<Rightarrow> opt_rigidBodyType ro),
      colliderDesc = (case rapierOptions of None \<Rightarrow> None | Some ro \<Rightarrow> opt_collider ro),
      cfg_phaserTransformations =
        (case rapierOptions of None \<Rightarrow> None | Some ro \<Rightarrow> opt_phaserTransformations ro)\<rparr>"

definition addRigidBody :: "Rapier \<Rightarrow> nat \<Rightarrow> TRapierOptions option \<Rightarrow> Adapter \<Rightarrow> (error + TPhysicsObject) \<times> Adapter" where
  "addRigidBody eng g rapierOptions s =
     (case addRidgiBody eng (configOf g rapierOptions) s of
        (Inl e, s') \<Rightarrow> (Inl e, s')
      | (Inr b, s') \<Rightarrow>
          (Inr \<lparr>rigidBody = rigidBody b, collider = collider b, gameObject = gameObject b\<rparr>,
           s'\<lparr>bodies := b # bodies s'\<rparr>))"

section \<open>The per-frame callback \<open>update\<close>\<close>

text \<open>\<open>Array.prototype.forEach\<close> with a callback that does not touch the array.\<close>

fun forEach :: "'a list \<Rightarrow> ('a \<Rightarrow> 's \<Rightarrow> 's) \<Rightarrow> 's \<Rightarrow> 's" where
  "forEach [] f s = s"
| "forEach (b # bs) f s = forEach bs f (f b s)"

text \<open>The setters of a kinematic body and of a collider.\<close>

definition setNextKinematicTranslation :: "nat \<Rightarrow> Vector2 \<Rightarrow> World \<Rightarrow> World" where
  "setNextKinematicTranslation h v w =
     w\<lparr>rigidBodies := (rigidBodies w)(h := (rigidBodies w h)\<lparr>nextKinematicTranslation := Some v\<rparr>)\<rparr>"

definition setNextKinematicRotation :: "nat \<Rightarrow> num \<Rightarrow> World \<Rightarrow> World" where
  "setNextKinematicRotation h r w =
     w\<lparr>rigidBodies := (rigidBodies w)(h := (rigidBodies w h)\<lparr>nextKinematicRotation := Some r\<rparr>)\<rparr>"

definition collider_setRotation :: "nat \<Rightarrow> num \<Rightarrow> World \<Rightarrow> World" where
  "collider_setRotation c r w =
     w\<lparr>colliders := (colliders w)(c := (colliders w c)\<lparr>Collider.rotation := r\<rparr>)\<rparr>"

text \<open>The callback of \<open>bodies.forEach\<close> in \<open>update\<close>, for one record of \<open>bodies\<close>.\<close>

definition syncBody :: "TRidgiBodyObject \<Rightarrow> Adapter \<Rightarrow> Adapter" where
  "syncBody b s =
     (let rb = rigidBodies (world s) (rigidBody b);
          g = scene s (gameObject b)
      in if isFixed rb then s
         else if phaserTransformations b then
           (if isKinematic rb \<and> bodyType rb = KinematicPositionBased then
              s\<lparr>world :=
                   collider_setRotation (collider b) (GameObject.rotation g)
                     (setNextKinematicRotation (rigidBody b) (GameObject.rotation g)
                        (setNextKinematicTranslation (rigidBody b)
                           (x g - displayWidth g * (originX g - 0.5), y g) (world s)))\<rparr>
            else
              s\<lparr>trace := trace s @
                   [ConsoleError
                      ''Phaser transformations are only available for KinematicPositionBased rigid bodies'']\<rparr>)
         else
           s\<lparr>scene := (scene s)
                (gameObject b :=
                   g\<lparr>x := fst (translation rb), y := snd (translation rb),
                     GameObject.rotation := RigidBody.rotation rb\<rparr>)\<rparr>)"

text \<open>
  Reading a typed array: an index past the end gives \<open>undefined\<close>, here \<open>None\<close>; a
  product with \<open>undefined\<close> is not a number, \<open>None\<close> again.
\<close>

definition elemAt :: "num list \<Rightarrow> nat \<Rightarrow> num option" where
  "elemAt xs i = (if i < length xs then Some (xs ! i) else None)"

definition times255 :: "num option \<Rightarrow> num option" where
  "times255 v = (case v of None \<Rightarrow> None | Some r \<Rightarrow> Some (r * 255))"

text \<open>The \<open>for\<close> loop of the debug rendering, from index \<open>i\<close> on.\<close>

function debugLines :: "num list \<Rightarrow> num list \<Rightarrow> nat \<Rightarrow> Call list" where
  "debugLines vertices colors i =
     (if i < length vertices then
        (let x1 = elemAt vertices i; y1 = elemAt vertices (i + 1);
             x2 = elemAt vertices (i + 2); y2 = elemAt vertices (i + 3);
             colorIndex = i * 2;
             r = elemAt colors colorIndex; g = elemAt colors (colorIndex + 1);
             b = elemAt colors (colorIndex + 2); a = elemAt colors (colorIndex + 3)
         in [LineStyle 2 (GetColor (times255 r) (times255 g) (times255 b)) a,
             LineBetween x1 y1 x2 y2] @ debugLines vertices colors (i + 4))
      else [])"
  by pat_completeness auto
termination
  by (relation "measure (\<lambda>(vertices, colors, i). length vertices - i)") auto

declare debugLines.simps [simp del]

text \<open>
  \<open>update\<close> is three blocks in a row: the simulation step (draining the queue when there
  is one), the loop over \<open>bodies\<close>, and the debug rendering.
\<close>

definition stepWorld :: "Rapier \<Rightarrow> Adapter \<Rightarrow> Adapter" where
  "stepWorld eng s =
     (case eventQueue s of
        Some q \<Rightarrow>
          (let w' = step eng (Some q) (world s)
           in s\<lparr>world := w',
                trace := trace s @ [WorldStep (Some q)] @
                         map (\<lambda>event. ConsoleLog (fst event)) (collisionEvents eng q w')\<rparr>)
      | None \<Rightarrow> s\<lparr>world := step eng None (world s), trace := trace s @ [WorldStep None]\<rparr>)"

definition syncBodies :: "Adapter \<Rightarrow> Adapter" where
  "syncBodies s = forEach (bodies s) syncBody s"

definition renderDebug :: "Rapier \<Rightarrow> Adapter \<Rightarrow> Adapter" where
  "renderDebug eng s =
     (if debugEnabled s then
        (let (vertices, colors) = debugRender eng (world s)
         in s\<lparr>trace := trace s @ [GraphicsClear] @ debugLines vertices colors 0\<rparr>)
      else s)"

definition update :: "Rapier \<Rightarrow> Adapter \<Rightarrow> Adapter" where
  "update eng s = renderDebug eng (syncBodies (stepWorld eng s))"

section \<open>\<open>debugger\<close>, \<open>destroy\<close> and \<open>createEventQueue\<close>\<close>

definition debugger :: "bool \<Rightarrow> Adapter \<Rightarrow> Adapter" where
  "debugger enable s =
     (let s1 = s\<lparr>debugEnabled := enable\<rparr>
      in if \<not> enable then s1\<lparr>trace := trace s1 @ [GraphicsClear]\<rparr> else s1)"

text \<open>\<open>Array.prototype.indexOf\<close>: the first index of the element, or \<open>-1\<close>.\<close>

fun indexOf :: "'a list \<Rightarrow> 'a \<Rightarrow> int" where
  "indexOf [] a = -1"
| "indexOf (b # bs) a = (if b = a then 0 else (let i = indexOf bs a in if i = -1 then -1 else i + 1))"

text \<open>\<open>bodies.splice(index, 1)\<close> for an index that is not negative.\<close>

definition splice1 :: "nat \<Rightarrow> 'a list \<Rightarrow> 'a list" where
  "splice1 i bs = take i bs @ drop (Suc i) bs"

text \<open>
  The three steps of \<open>destroy\<close> for the record it found. A record always has a
  \<open>rigidBody\<close>, so the test \<open>body?.rigidBody !== undefined\<close> is the test that \<open>find\<close> found
  one. \<open>indexOf\<close> compares by reference in the source and by value here; for the record
  that \<open>find\<close> returned both give the index at which \<open>find\<close> found it
  (\<open>indexOf_found\<close> below).
\<close>

definition world_removeRigidBody :: "TRidgiBodyObject \<Rightarrow> Adapter \<Rightarrow> Adapter" where
  "world_removeRigidBody b s =
     s\<lparr>world := removeRigidBody (rigidBody b) (world s),
       trace := trace s @ [RemoveRigidBody (rigidBody b)]\<rparr>"

definition gameObject_destroy :: "TRidgiBodyObject \<Rightarrow> Adapter \<Rightarrow> Adapter" where
  "gameObject_destroy b s =
     s\<lparr>scene := (scene s)(gameObject b := (scene s (gameObject b))\<lparr>destroyed := True\<rparr>),
       trace := trace s @ [GameObjectDestroy (gameObject b)]\<rparr>"

definition bodies_remove :: "TRidgiBodyObject \<Rightarrow> Adapter \<Rightarrow> Adapter" where
  "bodies_remove b s =
     (let index = indexOf (bodies s) b
      in if index > -1 then s\<lparr>bodies := splice1 (nat index) (bodies s)\<rparr> else s)"

definition destroy :: "nat \<Rightarrow> Adapter \<Rightarrow> Adapter" where
  "destroy g s =
     (case find (\<lambda>b. gameObject b = g) (bodies s) of
        None \<Rightarrow> s
      | Some b \<Rightarrow> bodies_remove b (gameObject_destroy b (world_removeRigidBody b s)))"

text \<open>
  The closure \<open>free\<close> that \<open>createEventQueue\<close> returns: it reads and writes the variable
  \<open>eventQueue\<close> of \<open>createRapierPhysics\<close>, and nothing of the call that made it.
\<close>

definition free :: "Adapter \<Rightarrow> Adapter" where
  "free s =
     (case eventQueue s of
        Some q \<Rightarrow> s\<lparr>eventQueue := None, trace := trace s @ [EventQueueFree q]\<rparr>
      | None \<Rightarrow> s)"

definition createEventQueue :: "Adapter \<Rightarrow> (nat \<times> (Adapter \<Rightarrow> Adapter)) \<times> Adapter" where
  "createEventQueue s =
     (let q = queuesCreated s
      in ((q, free),
          s\<lparr>eventQueue := Some q, queuesCreated := Suc q, trace := trace s @ [NewEventQueue q]\<rparr>))"

section \<open>A fresh connector, and a physics library to run examples with\<close>

text \<open>
  \<open>createRapierPhysics(gravity, scene)\<close>: an empty world with the given gravity and no
  records. Handles that were never handed out hold a place-holder.
\<close>

definition createRapierPhysics :: "Vector2 \<Rightarrow> (nat \<Rightarrow> GameObject) \<Rightarrow> Adapter" where
  "createRapierPhysics gv sc =
     \<lparr>scene = sc,
      world = \<lparr>gravity = gv,
               rigidBodies = (\<lambda>h. \<lparr>bodyType = Dynamic, translation = (0, 0), rotation = 0,
                                   nextKinematicTranslation = None, nextKinematicRotation = None,
                                   userData = None\<rparr>),
               colliders = (\<lambda>c. \<lparr>shape = IsDesc (ball 0), parent = 0, rotation = 0\<rparr>),
               bodyHandles = [], colliderHandles = [], nextBody = 0, nextCollider = 0\<rparr>,
      bodies = [], debugEnabled = False, eventQueue = None, queuesCreated = 0, trace = []\<rparr>"

text \<open>
  The examples run with a small stand-in for the library: a step moves every dynamic
  body by the gravity vector, there are no collisions and no debug geometry,
  \<open>createCollider\<close> raises on a bare number, and a body keeps the numbers of its
  descriptor as they are (as the library does for the numbers of these examples, which
  32-bit floats hold exactly).
\<close>

definition fall :: "Vector2 \<Rightarrow> RigidBody \<Rightarrow> RigidBody" where
  "fall gv b =
     (if bodyType b = Dynamic
      then b\<lparr>translation := (fst (translation b) + fst gv, snd (translation b) + snd gv)\<rparr>
      else b)"

definition exampleRapier :: Rapier where
  "exampleRapier =
     \<lparr>step = (\<lambda>q w. w\<lparr>rigidBodies := (\<lambda>h. fall (gravity w) (rigidBodies w h))\<rparr>),
      collisionEvents = (\<lambda>q w. []),
      debugRender = (\<lambda>w. ([], [])),
      numberAccepted = (\<lambda>k. False),
      storedTranslation = (\<lambda>v. v),
      storedRotation = (\<lambda>r. r)\<rparr>"

text \<open>
  A second stand-in keeps what it stores as 32-bit floats. \<open>float32\<close> is the nearest
  number with 24 significant bits; a tie goes up, and overflow and subnormal numbers are
  left aside (the examples have none). The library keeps the cosine and the sine of the
  angle as such floats; this stand-in rounds the angle itself.
\<close>

definition float32 :: "num \<Rightarrow> num" where
  "float32 r =
     (if r = 0 then 0
      else (let e = \<lfloor>log 2 \<bar>r\<bar>\<rfloor>; ulp = 2 powr (of_int e - 23)
            in of_int (round (r / ulp)) * ulp))"

definition singleRapier :: Rapier where
  "singleRapier =
     exampleRapier\<lparr>storedTranslation := (\<lambda>v. (float32 (fst v), float32 (snd v))),
                   storedRotation := float32\<rparr>"

text \<open>
  What the loop of \<open>update\<close> writes for an engine-driven record: the body's pose on the
  display object. \<open>writers g w bs\<close> are the records of \<open>bs\<close>, in order, that write
  on display object \<open>g\<close> in a frame whose simulation step gave the world \<open>w\<close>: those of
  \<open>g\<close> whose body is not Fixed and whose flag is not set.
\<close>

definition copyPose :: "RigidBody \<Rightarrow> GameObject \<Rightarrow> GameObject" where
  "copyPose rb g =
     g\<lparr>x := fst (translation rb), y := snd (translation rb),
       GameObject.rotation := RigidBody.rotation rb\<rparr>"

definition writers :: "nat \<Rightarrow> World \<Rightarrow> TRidgiBodyObject list \<Rightarrow> TRidgiBodyObject list" where
  "writers g w bs =
     filter (\<lambda>b. gameObject b = g \<and> bodyType (rigidBodies w (rigidBody b)) \<noteq> Fixed
                 \<and> \<not> phaserTransformations b) bs"

text \<open>A 32 by 16 sprite at (300, 200), turned by 1, with its origin at its left edge.\<close>

definition sprite :: GameObject where
  "sprite = \<lparr>x = 300, y = 200, rotation = 1, displayWidth = 32, displayHeight = 16,
             originX = 0, destroyed = False\<rparr>"

definition exampleAdapter :: Adapter where
  "exampleAdapter = createRapierPhysics (0, 400) (\<lambda>ref. sprite)"

text \<open>The sprite moved to x = 0.1, and a connector whose display objects are all like it.\<close>

definition nudgedAdapter :: Adapter where
  "nudgedAdapter = createRapierPhysics (0, 400) (\<lambda>ref. sprite\<lparr>x := 0.1\<rparr>)"

text \<open>
  Options: none of the fields, and a body type with the mirroring flag. \<open>attach\<close> is a
  call of \<open>addRigidBody\<close> on the stand-in, keeping the state.
\<close>

definition noOptions :: TRapierOptions where
  "noOptions = \<lparr>opt_rigidBodyType = None, opt_collider = None, opt_phaserTransformations = None\<rparr>"

definition optionsOf :: "RigidBodyType \<Rightarrow> bool \<Rightarrow> TRapierOptions option" where
  "optionsOf t m =
     Some \<lparr>opt_rigidBodyType = Some t, opt_collider = None, opt_phaserTransformations = Some m\<rparr>"

definition attach :: "nat \<Rightarrow> RigidBodyType \<Rightarrow> bool \<Rightarrow> Adapter \<Rightarrow> Adapter" where
  "attach g t m s = snd (addRigidBody exampleRapier g (optionsOf t m) s)"

text \<open>
  Debug buffers of two segments, laid out as the library lays them out: four floats of
  vertices and eight floats of colours (one colour per end point) for each segment.
\<close>

definition exampleVertices :: "num list" where
  "exampleVertices = [0, 0, 10, 10, 20, 20, 30, 30]"

definition exampleColors :: "num list" where
  "exampleColors = [1, 0, 0, 1, 0, 1, 0, 0.5, 0, 0, 1, 1, 1, 1, 1, 0.25]"

text \<open>A caller attaching display objects one after the other; an exception ends the run.\<close>

fun attachAll :: "Rapier \<Rightarrow> (nat \<times> TRapierOptions option) list \<Rightarrow> Adapter \<Rightarrow> error + Adapter" where
  "attachAll eng [] s = Inr s"
| "attachAll eng ((g, ro) # rest) s =
     (case addRigidBody eng g ro s of
        (Inl e, s') \<Rightarrow> Inl e
      | (Inr p, s') \<Rightarrow> attachAll eng rest s')"

section \<open>The shape table as the specification words it\<close>

text \<open>
  The reference table, from the specification's words and not from the code: box, ball,
  capsule and triangle by the display bounds; a rounded shape is its plain counterpart
  plus the fixed corner radius; no shape option means the bounding box. Other kinds have
  no entry.
\<close>

definition cornerRadius :: num where
  "cornerRadius = 5"

fun rounded :: "ColliderDesc \<Rightarrow> num \<Rightarrow> ColliderDesc" where
  "rounded (cuboid hx hy) r = roundCuboid hx hy r"
| "rounded (triangle a b c) r = roundTriangle a b c r"
| "rounded d r = d"

definition boundingBox :: "num \<Rightarrow> num \<Rightarrow> ColliderDesc" where
  "boundingBox w h = cuboid (w / 2) (h / 2)"

definition inscribedTriangle :: "num \<Rightarrow> num \<Rightarrow> ColliderDesc" where
  "inscribedTriangle w h = triangle (0, - (h / 2)) (- (w / 2), h / 2) (w / 2, h / 2)"

fun shapeReference :: "num \<Rightarrow> num \<Rightarrow> ShapeType option \<Rightarrow> ColliderDesc option" where
  "shapeReference w h None = Some (boundingBox w h)"
| "shapeReference w h (Some Cuboid) = Some (boundingBox w h)"
| "shapeReference w h (Some BallShape) = Some (ball (w / 2))"
| "shapeReference w h (Some Capsule) = Some (capsule (w / 4) (w / 2))"
| "shapeReference w h (Some Triangle) = Some (inscribedTriangle w h)"
| "shapeReference w h (Some RoundCuboid) = Some (rounded (boundingBox w h) cornerRadius)"
| "shapeReference w h (Some RoundTriangle) = Some (rounded (inscribedTriangle w h) cornerRadius)"
| "shapeReference w h (Some k) = None"

section \<open>Attaching: what \<open>addRidgiBody\<close> creates\<close>

lemma rigidBodyDescFor_pose:
  "desc_translation (rigidBodyDescFor b ref t) = (x b, y b)"
  "desc_rotation (rigidBodyDescFor b ref t) = GameObject.rotation b"
  "desc_userData (rigidBodyDescFor b ref t) = Some ref"
  by (simp_all add: rigidBodyDescFor_def setUserData_def setRotation_def setTranslation_def Let_def)

lemma rigidBodyDescFor_status:
  "status (rigidBodyDescFor b ref t) = (case t of None \<Rightarrow> Dynamic | Some k \<Rightarrow> k)"
  by (simp add: rigidBodyDescFor_def setUserData_def setRotation_def setTranslation_def Let_def
      dynamic_def fixed_def kinematicPositionBased_def kinematicVelocityBased_def
      split: option.splits RigidBodyType.splits)

lemma addRidgiBody_body:
  "rigidBodies (world (snd (addRidgiBody eng cfg s))) (nextBody (world s)) =
     \<lparr>bodyType = (case rigidBodyType cfg of None \<Rightarrow> Dynamic | Some k \<Rightarrow> k),
      translation = storedTranslation eng (x (scene s (body cfg)), y (scene s (body cfg))),
      rotation = storedRotation eng (GameObject.rotation (scene s (body cfg))),
      nextKinematicTranslation = None, nextKinematicRotation = None,
      userData = Some (body cfg)\<rparr>"
  by (auto simp: addRidgiBody_def Let_def createRigidBody_def createCollider_def
      rigidBodyDescFor_pose rigidBodyDescFor_status
      split: prod.splits sum.splits ColliderOption.splits if_splits)

lemma addRidgiBody_bodyHandles:
  "nextBody (world s) \<in> set (bodyHandles (world (snd (addRidgiBody eng cfg s))))"
  by (auto simp: addRidgiBody_def Let_def createRigidBody_def createCollider_def
      split: prod.splits sum.splits ColliderOption.splits if_splits)

lemma addRidgiBody_Inr:
  "addRidgiBody eng cfg s = (Inr r, s') \<Longrightarrow>
     rigidBody r = nextBody (world s) \<and> collider r = nextCollider (world s) \<and> gameObject r = body cfg
     \<and> phaserTransformations r = (case cfg_phaserTransformations cfg of None \<Rightarrow> False | Some p \<Rightarrow> p)
     \<and> scene s' = scene s \<and> bodies s' = bodies s
     \<and> shape (colliders (world s') (collider r)) = fst (colliderDescFor (scene s (body cfg)) (colliderDesc cfg))"
  by (auto simp: addRidgiBody_def Let_def createRigidBody_def createCollider_def
      split: prod.splits sum.splits ColliderOption.splits if_splits)

lemma addRidgiBody_trace:
  "trace (snd (addRidgiBody eng cfg s)) =
     trace s @ snd (colliderDescFor (scene s (body cfg)) (colliderDesc cfg))"
  by (auto simp: addRidgiBody_def Let_def createRigidBody_def createCollider_def
      split: prod.splits sum.splits ColliderOption.splits if_splits)

text \<open>
  \<open>addRidgiBody\<close> has no \<open>throw\<close> of its own: it returns exactly when \<open>createCollider\<close>
  does, that is, unless the value it hands over is a bare number the library refuses.
\<close>

lemma addRidgiBody_returns:
  "(\<exists>r. fst (addRidgiBody eng cfg s) = Inr r) \<longleftrightarrow>
     (case fst (colliderDescFor (scene s (body cfg)) (colliderDesc cfg)) of
        IsDesc d \<Rightarrow> True | IsShapeType k \<Rightarrow> numberAccepted eng k)"
  by (auto simp: addRidgiBody_def Let_def createRigidBody_def createCollider_def
      split: prod.splits sum.splits ColliderOption.splits if_splits)

lemma addRigidBody_world:
  "world (snd (addRigidBody eng g ro s)) = world (snd (addRidgiBody eng (configOf g ro) s))"
  by (simp add: addRigidBody_def split: prod.splits sum.splits)

lemma sprite_fields:
  "x sprite = 300" "y sprite = 200" "GameObject.rotation sprite = 1" "displayWidth sprite = 32"
  "displayHeight sprite = 16" "originX sprite = 0"
  by (simp_all add: sprite_def)

lemma exampleAdapter_fields:
  "scene exampleAdapter = (\<lambda>ref. sprite)" "bodies exampleAdapter = []" "trace exampleAdapter = []"
  "nextBody (world exampleAdapter) = 0" "nextCollider (world exampleAdapter) = 0"
  "eventQueue exampleAdapter = None" "debugEnabled exampleAdapter = False"
  "bodyHandles (world exampleAdapter) = []" "gravity (world exampleAdapter) = (0, 400)"
  by (simp_all add: exampleAdapter_def createRapierPhysics_def)

lemma float32_tenth: "float32 (1 / 10) = 13421773 / 134217728"
proof -
  have l: "\<lfloor>log 2 \<bar>1 / 10 :: real\<bar>\<rfloor> = - 4"
  proof (rule floor_unique)
    have "(2::real) powr (- 4) \<le> 1 / 10" by (simp add: powr_minus divide_simps)
    then show "of_int (- 4) \<le> log 2 \<bar>1 / 10 :: real\<bar>" by (simp add: le_log_iff)
    have "(1 / 10 :: real) < 2 powr (- 3)" by (simp add: powr_minus divide_simps)
    then show "log 2 \<bar>1 / 10 :: real\<bar> < of_int (- 4) + 1" by (simp add: log_less_iff)
  qed
  have u: "(2::real) powr (of_int (- 4) - 23) = 1 / 134217728"
    by (simp add: powr_minus divide_simps)
  have r: "round ((1 / 10 :: real) / (1 / 134217728)) = 13421773"
    by (simp add: round_def)
  show ?thesis
    unfolding float32_def Let_def l u r by simp
qed

lemma singleRapier_fields:
  "storedTranslation singleRapier v = (float32 (fst v), float32 (snd v))"
  "storedRotation singleRapier r = float32 r"
  "numberAccepted singleRapier k = False"
  by (simp_all add: singleRapier_def exampleRapier_def)

lemma nudgedAdapter_fields:
  "scene nudgedAdapter = (\<lambda>ref. sprite\<lparr>x := 0.1\<rparr>)" "nextBody (world nudgedAdapter) = 0"
  "bodies nudgedAdapter = []"
  by (simp_all add: nudgedAdapter_def createRapierPhysics_def)

lemma addRigidBody_body:
  "rigidBodies (world (snd (addRigidBody eng g ro s))) (nextBody (world s)) =
     \<lparr>bodyType = (case rigidBodyType (configOf g ro) of None \<Rightarrow> Dynamic | Some k \<Rightarrow> k),
      translation = storedTranslation eng (x (scene s g), y (scene s g)),
      rotation = storedRotation eng (GameObject.rotation (scene s g)),
      nextKinematicTranslation = None, nextKinematicRotation = None,
      userData = Some g\<rparr>"
  using addRidgiBody_body[of eng "configOf g ro" s]
  by (simp add: addRigidBody_world) (simp add: configOf_def)

text \<open>
  C3, as the code has it. Whatever the display object and the options, \<open>addRigidBody\<close>
  creates the body from a descriptor whose translation is the display object's \<open>(x, y)\<close>
  and whose rotation is the display object's rotation, as they are when \<open>addRigidBody\<close>
  is called. The body (the one with the next free handle, which is in the simulation
  afterwards and is the body of the returned record) starts with these values in the
  form the library keeps them: its translation and rotation read back as the display
  object's exactly where the library keeps these numbers as they are.
\<close>

theorem addRigidBody_initial_pose:
  "desc_translation (rigidBodyDescFor (scene s g) g (rigidBodyType (configOf g ro)))
     = (x (scene s g), y (scene s g))
   \<and> desc_rotation (rigidBodyDescFor (scene s g) g (rigidBodyType (configOf g ro)))
     = GameObject.rotation (scene s g)
   \<and> translation (rigidBodies (world (snd (addRigidBody eng g ro s))) (nextBody (world s)))
     = storedTranslation eng (x (scene s g), y (scene s g))
   \<and> RigidBody.rotation (rigidBodies (world (snd (addRigidBody eng g ro s))) (nextBody (world s)))
     = storedRotation eng (GameObject.rotation (scene s g))
   \<and> nextBody (world s) \<in> set (bodyHandles (world (snd (addRigidBody eng g ro s))))
   \<and> (\<forall>p. fst (addRigidBody eng g ro s) = Inr p \<longrightarrow> rigidBody p = nextBody (world s))
   \<and> (storedTranslation eng (x (scene s g), y (scene s g)) = (x (scene s g), y (scene s g))
        \<longrightarrow> translation (rigidBodies (world (snd (addRigidBody eng g ro s))) (nextBody (world s)))
             = (x (scene s g), y (scene s g)))
   \<and> (storedRotation eng (GameObject.rotation (scene s g)) = GameObject.rotation (scene s g)
        \<longrightarrow> RigidBody.rotation (rigidBodies (world (snd (addRigidBody eng g ro s))) (nextBody (world s)))
             = GameObject.rotation (scene s g))"
proof -
  have h: "nextBody (world s) \<in> set (bodyHandles (world (snd (addRigidBody eng g ro s))))"
    by (simp add: addRigidBody_world addRidgiBody_bodyHandles)
  have r: "\<forall>p. fst (addRigidBody eng g ro s) = Inr p \<longrightarrow> rigidBody p = nextBody (world s)"
    by (auto simp: addRigidBody_def split: prod.splits sum.splits dest: addRidgiBody_Inr)
  show ?thesis
    using h r by (simp add: addRigidBody_body rigidBodyDescFor_pose)
qed

theorem addRigidBody_initial_pose_witness:
  "translation (rigidBodies (world (snd (addRigidBody exampleRapier 7 None exampleAdapter))) 0)
     = (300, 200)
   \<and> desc_rotation (rigidBodyDescFor (scene exampleAdapter 7) 7 None) = 1
   \<and> (\<exists>p. fst (addRigidBody exampleRapier 7 None exampleAdapter) = Inr p \<and> rigidBody p = 0)"
proof -
  have r: "\<exists>p. fst (addRigidBody exampleRapier 7 None exampleAdapter) = Inr p"
    by (simp add: addRigidBody_def addRidgiBody_def configOf_def colliderDescFor_def
        createCollider_def createRigidBody_def Let_def split: prod.splits)
  have c: "rigidBodyType (configOf 7 None) = None" by (simp add: configOf_def)
  have e: "storedTranslation exampleRapier (300, 200) = (300, 200)"
    by (simp add: exampleRapier_def)
  show ?thesis
    using addRigidBody_initial_pose[of exampleAdapter 7 None exampleRapier] r
    by (auto simp: exampleAdapter_fields sprite_fields c e)
qed

text \<open>
  C3 as stated fails on a library that keeps 32-bit floats: a display object at
  x = 0.1 gives a body whose translation reads back as 13421773 / 134217728
  (0.100000001490116...), not as the display object's \<open>x\<close>.
\<close>

theorem addRigidBody_pose_rounded:
  "x (scene nudgedAdapter 7) = 1 / 10
   \<and> fst (translation (rigidBodies (world (snd (addRigidBody singleRapier 7 None nudgedAdapter))) 0))
       = 13421773 / 134217728
   \<and> fst (translation (rigidBodies (world (snd (addRigidBody singleRapier 7 None nudgedAdapter))) 0))
       \<noteq> x (scene nudgedAdapter 7)"
  using addRigidBody_body[of singleRapier 7 None nudgedAdapter]
  by (simp add: nudgedAdapter_fields singleRapier_fields float32_tenth)

lemma colliderDescFor_reference:
  "shapeReference (displayWidth b) (displayHeight b) k = Some d \<Longrightarrow>
     colliderDescFor b (map_option IsShapeType k) = (IsDesc d, [])"
  by (cases k; cases "the k")
     (auto simp: colliderDescFor_def Let_def boundingBox_def inscribedTriangle_def cornerRadius_def)

lemma addRidgiBody_descriptor:
  "colliderDescFor (scene s (body cfg)) (colliderDesc cfg) = (IsDesc d, l) \<Longrightarrow>
   \<exists>r s'. addRidgiBody eng cfg s = (Inr r, s') \<and> shape (colliders (world s') (collider r)) = IsDesc d"
  by (auto simp: addRidgiBody_def Let_def createRigidBody_def createCollider_def
      split: prod.splits sum.splits ColliderOption.splits if_splits)

text \<open>
  C4. For a display object of positive display width and height, the collider that
  \<open>addRidgiBody\<close> makes of a shape kind is the one of the reference table: the box has
  half-extents (width/2, height/2), the ball radius width/2, the capsule half-height
  width/4 and radius width/2, the triangle the apex (0, -height/2) and the base corners
  (-width/2, height/2) and (width/2, height/2), the rounded box and the rounded triangle
  the same geometry with the fixed corner radius, and no shape option gives the
  bounding box. Nothing is logged, and the collider created in the world has that
  descriptor. (The two bounds on the size are the claim's; the proof does not need them.)
\<close>

theorem shape_mapping_matches_reference:
  assumes "0 < displayWidth (scene s g)" and "0 < displayHeight (scene s g)"
    and "shapeReference (displayWidth (scene s g)) (displayHeight (scene s g)) k = Some d"
  shows "colliderDescFor (scene s g) (map_option IsShapeType k) = (IsDesc d, [])
     \<and> (\<exists>p s'. addRigidBody eng g
                 (Some \<lparr>opt_rigidBodyType = t, opt_collider = map_option IsShapeType k,
                        opt_phaserTransformations = m\<rparr>) s = (Inr p, s')
              \<and> shape (colliders (world s') (collider p)) = IsDesc d)
     \<and> (k = None \<longrightarrow> (\<exists>p s'. addRigidBody eng g None s = (Inr p, s')
              \<and> shape (colliders (world s') (collider p)) = IsDesc d))"
proof -
  have c: "colliderDescFor (scene s g) (map_option IsShapeType k) = (IsDesc d, [])"
    using assms(3) by (rule colliderDescFor_reference)
  let ?ro = "Some \<lparr>opt_rigidBodyType = t, opt_collider = map_option IsShapeType k,
                        opt_phaserTransformations = m\<rparr>"
  have "colliderDescFor (scene s (body (configOf g ?ro))) (colliderDesc (configOf g ?ro)) = (IsDesc d, [])"
    using c by (simp add: configOf_def)
  from addRidgiBody_descriptor[OF this, of eng]
  have 1: "\<exists>p s'. addRigidBody eng g ?ro s = (Inr p, s')
              \<and> shape (colliders (world s') (collider p)) = IsDesc d"
    by (auto simp: addRigidBody_def)
  have 2: "\<exists>p s'. addRigidBody eng g None s = (Inr p, s')
              \<and> shape (colliders (world s') (collider p)) = IsDesc d" if "k = None"
  proof -
    have "colliderDescFor (scene s (body (configOf g None))) (colliderDesc (configOf g None)) = (IsDesc d, [])"
      using c that by (simp add: configOf_def)
    from addRidgiBody_descriptor[OF this, of eng] show ?thesis
      by (auto simp: addRigidBody_def)
  qed
  show ?thesis using c 1 2 by blast
qed

theorem shape_mapping_matches_reference_witness:
  "colliderDescFor sprite (Some (IsShapeType Capsule)) = (IsDesc (capsule 8 16), [])
   \<and> colliderDescFor sprite (Some (IsShapeType BallShape)) = (IsDesc (ball 16), [])
   \<and> colliderDescFor sprite (Some (IsShapeType RoundTriangle))
       = (IsDesc (roundTriangle (0, -8) (-16, 8) (16, 8) 5), [])
   \<and> colliderDescFor sprite None = (IsDesc (cuboid 16 8), [])"
proof -
  have s: "scene exampleAdapter 0 = sprite" by (simp add: exampleAdapter_fields)
  have p: "0 < displayWidth (scene exampleAdapter 0)" "0 < displayHeight (scene exampleAdapter 0)"
    by (simp_all add: s sprite_fields)
  have 1: "shapeReference (displayWidth (scene exampleAdapter 0)) (displayHeight (scene exampleAdapter 0))
            (Some Capsule) = Some (capsule 8 16)"
    by (simp add: s sprite_fields)
  have 2: "shapeReference (displayWidth (scene exampleAdapter 0)) (displayHeight (scene exampleAdapter 0))
            (Some BallShape) = Some (ball 16)"
    by (simp add: s sprite_fields)
  have 3: "shapeReference (displayWidth (scene exampleAdapter 0)) (displayHeight (scene exampleAdapter 0))
            (Some RoundTriangle) = Some (roundTriangle (0, -8) (-16, 8) (16, 8) 5)"
    by (simp add: s sprite_fields inscribedTriangle_def cornerRadius_def)
  have 4: "shapeReference (displayWidth (scene exampleAdapter 0)) (displayHeight (scene exampleAdapter 0))
            None = Some (cuboid 16 8)"
    by (simp add: s sprite_fields boundingBox_def)
  show ?thesis
    using shape_mapping_matches_reference[OF p 1, of exampleRapier None None]
      shape_mapping_matches_reference[OF p 2, of exampleRapier None None]
      shape_mapping_matches_reference[OF p 3, of exampleRapier None None]
      shape_mapping_matches_reference[OF p 4, of exampleRapier None None]
    by (simp add: s)
qed

lemma colliderDescFor_unimplemented:
  assumes "k \<in> {TriMesh, HalfSpace, Segment, ConvexPolygon, RoundConvexPolygon}"
  shows "\<exists>name. colliderDescFor b (Some (IsShapeType k)) =
           (IsShapeType k,
            [ConsoleError (name @ '' not implemented, please use a ColliderDesc object'')])"
proof -
  consider "k = TriMesh" | "k = HalfSpace" | "k = Segment" | "k = ConvexPolygon"
    | "k = RoundConvexPolygon"
    using assms by auto
  then show ?thesis
  proof cases
    case 1
    then show ?thesis by (intro exI[of _ "''TriMesh''"]) (simp add: colliderDescFor_def)
  next
    case 2
    then show ?thesis by (intro exI[of _ "''HeightSpace''"]) (simp add: colliderDescFor_def)
  next
    case 3
    then show ?thesis by (intro exI[of _ "''Segment''"]) (simp add: colliderDescFor_def)
  next
    case 4
    then show ?thesis by (intro exI[of _ "''ConvexPolygon''"]) (simp add: colliderDescFor_def)
  next
    case 5
    then show ?thesis
      by (intro exI[of _ "''RoundConvexPolygon''"]) (simp add: colliderDescFor_def)
  qed
qed

lemma addRidgiBody_number:
  "colliderDescFor (scene s (body cfg)) (colliderDesc cfg) = (IsShapeType k, l) \<Longrightarrow>
   fst (addRidgiBody eng cfg s) =
     (if numberAccepted eng k
      then Inr \<lparr>rigidBody = nextBody (world s), collider = nextCollider (world s),
                gameObject = body cfg,
                phaserTransformations =
                  (case cfg_phaserTransformations cfg of None \<Rightarrow> False | Some p \<Rightarrow> p)\<rparr>
      else Inl TypeError)"
  by (auto simp: addRidgiBody_def Let_def createRigidBody_def createCollider_def
      split: prod.splits sum.splits ColliderOption.splits if_splits)

lemma addRigidBody_trace:
  "trace (snd (addRigidBody eng g ro s)) = trace (snd (addRidgiBody eng (configOf g ro) s))"
  by (simp add: addRigidBody_def split: prod.splits sum.splits)

lemma addRigidBody_bodies:
  "bodies (snd (addRigidBody eng g ro s)) =
     (case fst (addRidgiBody eng (configOf g ro) s) of Inl e \<Rightarrow> bodies s | Inr b \<Rightarrow> b # bodies s)"
  by (auto simp: addRigidBody_def split: prod.splits sum.splits dest: addRidgiBody_Inr)
     (auto simp: addRidgiBody_def Let_def createRigidBody_def createCollider_def
      split: prod.splits sum.splits ColliderOption.splits if_splits)

lemma addRigidBody_fst:
  "fst (addRigidBody eng g ro s) =
     (case fst (addRidgiBody eng (configOf g ro) s) of
        Inl e \<Rightarrow> Inl e
      | Inr b \<Rightarrow> Inr \<lparr>rigidBody = rigidBody b, collider = collider b, gameObject = gameObject b\<rparr>)"
  by (auto simp: addRigidBody_def split: prod.splits sum.splits)

text \<open>
  C1. For a shape option that is one of the kinds without a branch that builds a
  descriptor (TriMesh, HalfSpace, Segment, ConvexPolygon, RoundConvexPolygon),
  \<open>addRigidBody\<close> logs one console error and goes on, but what it hands to
  \<open>createCollider\<close> is the number itself: the assignment of the option to \<open>_colliderDesc\<close>
  replaced the default box, and no branch replaced the number. So the attach returns a
  record exactly when the library accepts a number for a descriptor; when the library
  raises, the exception leaves \<open>addRigidBody\<close>, nothing is added to \<open>bodies\<close>, and the body
  created just before stays in the simulation.
\<close>

theorem addRigidBody_unimplemented_shape:
  assumes "k \<in> {TriMesh, HalfSpace, Segment, ConvexPolygon, RoundConvexPolygon}"
    and "ro = Some \<lparr>opt_rigidBodyType = t, opt_collider = Some (IsShapeType k),
                    opt_phaserTransformations = m\<rparr>"
  shows "(\<exists>name. trace (snd (addRigidBody eng g ro s)) =
            trace s @ [ConsoleError (name @ '' not implemented, please use a ColliderDesc object'')])
     \<and> fst (colliderDescFor (scene s g) (Some (IsShapeType k))) = IsShapeType k
     \<and> fst (addRigidBody eng g ro s) =
         (if numberAccepted eng k
          then Inr \<lparr>rigidBody = nextBody (world s), collider = nextCollider (world s), gameObject = g\<rparr>
          else Inl TypeError)
     \<and> (\<not> numberAccepted eng k \<longrightarrow> bodies (snd (addRigidBody eng g ro s)) = bodies s)
     \<and> nextBody (world s) \<in> set (bodyHandles (world (snd (addRigidBody eng g ro s))))"
proof -
  obtain name msg
    where c: "colliderDescFor (scene s g) (Some (IsShapeType k)) = (IsShapeType k, [ConsoleError msg])"
      and msg: "msg = name @ '' not implemented, please use a ColliderDesc object''"
    using colliderDescFor_unimplemented[OF assms(1)] by blast
  have cfg: "body (configOf g ro) = g" "colliderDesc (configOf g ro) = Some (IsShapeType k)"
    by (simp_all add: configOf_def assms(2))
  have c': "colliderDescFor (scene s (body (configOf g ro))) (colliderDesc (configOf g ro))
              = (IsShapeType k, [ConsoleError msg])"
    using c by (simp add: cfg)
  have 1: "trace (snd (addRigidBody eng g ro s)) = trace s @ [ConsoleError msg]"
    by (simp add: addRigidBody_trace addRidgiBody_trace c')
  have 3: "fst (addRigidBody eng g ro s) =
         (if numberAccepted eng k
          then Inr \<lparr>rigidBody = nextBody (world s), collider = nextCollider (world s), gameObject = g\<rparr>
          else Inl TypeError)"
    by (simp add: addRigidBody_fst addRidgiBody_number[OF c'] cfg)
  have 4: "\<not> numberAccepted eng k \<longrightarrow> bodies (snd (addRigidBody eng g ro s)) = bodies s"
    by (simp add: addRigidBody_bodies addRidgiBody_number[OF c'])
  have 5: "nextBody (world s) \<in> set (bodyHandles (world (snd (addRigidBody eng g ro s))))"
    by (simp add: addRigidBody_world addRidgiBody_bodyHandles)
  show ?thesis using 1 c 3 4 5 msg by auto
qed

theorem addRigidBody_TriMesh_raises:
  "fst (addRigidBody exampleRapier 7 (Some (noOptions\<lparr>opt_collider := Some (IsShapeType TriMesh)\<rparr>))
          exampleAdapter) = Inl TypeError
   \<and> bodies (snd (addRigidBody exampleRapier 7
          (Some (noOptions\<lparr>opt_collider := Some (IsShapeType TriMesh)\<rparr>)) exampleAdapter)) = []
   \<and> 0 \<in> set (bodyHandles (world (snd (addRigidBody exampleRapier 7
          (Some (noOptions\<lparr>opt_collider := Some (IsShapeType TriMesh)\<rparr>)) exampleAdapter))))
   \<and> trace (snd (addRigidBody exampleRapier 7
          (Some (noOptions\<lparr>opt_collider := Some (IsShapeType TriMesh)\<rparr>)) exampleAdapter))
       = [ConsoleError ''TriMesh not implemented, please use a ColliderDesc object'']"
proof -
  have k: "TriMesh \<in> {TriMesh, HalfSpace, Segment, ConvexPolygon, RoundConvexPolygon}" by simp
  have ro: "Some (noOptions\<lparr>opt_collider := Some (IsShapeType TriMesh)\<rparr>)
      = Some \<lparr>opt_rigidBodyType = None, opt_collider = Some (IsShapeType TriMesh),
               opt_phaserTransformations = None\<rparr>"
    by (simp add: noOptions_def)
  have n: "\<not> numberAccepted exampleRapier TriMesh" by (simp add: exampleRapier_def)
  have logged: "trace (snd (addRigidBody exampleRapier 7
          (Some (noOptions\<lparr>opt_collider := Some (IsShapeType TriMesh)\<rparr>)) exampleAdapter))
       = [ConsoleError ''TriMesh not implemented, please use a ColliderDesc object'']"
    by (simp add: addRigidBody_trace addRidgiBody_trace configOf_def noOptions_def
        colliderDescFor_def exampleAdapter_fields)
  show ?thesis
    using addRigidBody_unimplemented_shape[OF k ro, of exampleRapier 7 exampleAdapter] n logged
    by (simp add: exampleAdapter_fields)
qed


section \<open>Order of the records\<close>

lemma forEach_record: "forEach bs (\<lambda>b visited. visited @ [f b]) acc = acc @ map f bs"
  by (induction bs arbitrary: acc) auto

lemma addRigidBody_prepends:
  "addRigidBody eng g ro s = (Inr p, s') \<Longrightarrow>
     \<exists>b. bodies s' = b # bodies s \<and> gameObject b = g \<and> rigidBody b = rigidBody p \<and> collider b = collider p"
  by (auto simp: addRigidBody_def configOf_def split: prod.splits sum.splits dest!: addRidgiBody_Inr)

lemma attachAll_order:
  "attachAll eng gs s = Inr s' \<Longrightarrow> map gameObject (bodies s') = rev (map fst gs) @ map gameObject (bodies s)"
proof (induction gs arbitrary: s)
  case Nil
  then show ?case by simp
next
  case (Cons a gs)
  obtain g ro where a: "a = (g, ro)" by (cases a)
  from Cons.prems obtain p s1 where 1: "addRigidBody eng g ro s = (Inr p, s1)"
    and 2: "attachAll eng gs s1 = Inr s'"
    by (auto simp: a split: prod.splits sum.splits)
  from addRigidBody_prepends[OF 1] obtain b where "bodies s1 = b # bodies s" "gameObject b = g"
    by blast
  with Cons.IH[OF 2] show ?case by (simp add: a)
qed

section \<open>The example states\<close>

lemma attach_fields:
  "scene (attach g t m s) = scene s"
  "bodies (attach g t m s) =
     \<lparr>rigidBody = nextBody (world s), collider = nextCollider (world s), gameObject = g,
      phaserTransformations = m\<rparr> # bodies s"
  "trace (attach g t m s) = trace s"
  "eventQueue (attach g t m s) = eventQueue s"
  "debugEnabled (attach g t m s) = debugEnabled s"
  "queuesCreated (attach g t m s) = queuesCreated s"
  by (simp_all add: attach_def optionsOf_def addRigidBody_def addRidgiBody_def configOf_def
      colliderDescFor_def createCollider_def createRigidBody_def Let_def split: prod.splits)

lemma attach_world:
  "rigidBodies (world (attach g t m s)) =
     (rigidBodies (world s))
       (nextBody (world s) :=
          \<lparr>bodyType = t, translation = (x (scene s g), y (scene s g)),
           rotation = GameObject.rotation (scene s g), nextKinematicTranslation = None,
           nextKinematicRotation = None, userData = Some g\<rparr>)"
  "nextBody (world (attach g t m s)) = Suc (nextBody (world s))"
  "nextCollider (world (attach g t m s)) = Suc (nextCollider (world s))"
  "gravity (world (attach g t m s)) = gravity (world s)"
  "bodyHandles (world (attach g t m s)) = nextBody (world s) # bodyHandles (world s)"
  by (simp_all add: attach_def optionsOf_def addRigidBody_def addRidgiBody_def configOf_def
      colliderDescFor_def createCollider_def createRigidBody_def Let_def exampleRapier_def
      rigidBodyDescFor_pose rigidBodyDescFor_status split: prod.splits)

lemma attach_colliders:
  "colliders (world (attach g t m s)) =
     (colliders (world s))
       (nextCollider (world s) :=
          \<lparr>shape = IsDesc (cuboid (displayWidth (scene s g) / 2) (displayHeight (scene s g) / 2)),
           parent = nextBody (world s), rotation = GameObject.rotation (scene s g)\<rparr>)"
  by (simp add: attach_def optionsOf_def addRigidBody_def addRidgiBody_def configOf_def
      colliderDescFor_def createCollider_def createRigidBody_def Let_def exampleRapier_def
      rigidBodyDescFor_pose rigidBodyDescFor_status split: prod.splits)

lemma exampleRapier_fields:
  "step exampleRapier q w = w\<lparr>rigidBodies := (\<lambda>h. fall (gravity w) (rigidBodies w h))\<rparr>"
  "collisionEvents exampleRapier q' w = []" "debugRender exampleRapier w = ([], [])"
  "numberAccepted exampleRapier k = False"
  by (simp_all add: exampleRapier_def)

lemma exampleRapier_keeps_bodyType:
  "\<forall>q w h. bodyType (rigidBodies (step exampleRapier q w) h) = bodyType (rigidBodies w h)"
  by (simp add: exampleRapier_fields fall_def)

section \<open>The loop over \<open>bodies\<close>\<close>

text \<open>
  C2. For a record whose body is KinematicPositionBased and whose \<open>phaserTransformations\<close>
  flag is set, the callback of the loop sets the body's next kinematic translation to
  \<open>(x - displayWidth * (originX - 0.5), y)\<close> of the display object, sets the body's next
  kinematic rotation to the display object's rotation, and sets the collider's rotation
  to the display object's rotation; the display object and the console are left alone.
\<close>

theorem syncBody_mirrors_display:
  assumes "bodyType (rigidBodies (world s) (rigidBody b)) = KinematicPositionBased"
    and "phaserTransformations b"
  shows "nextKinematicTranslation (rigidBodies (world (syncBody b s)) (rigidBody b))
           = Some (x (scene s (gameObject b))
                     - displayWidth (scene s (gameObject b)) * (originX (scene s (gameObject b)) - 0.5),
                   y (scene s (gameObject b)))
     \<and> nextKinematicRotation (rigidBodies (world (syncBody b s)) (rigidBody b))
           = Some (GameObject.rotation (scene s (gameObject b)))
     \<and> Collider.rotation (colliders (world (syncBody b s)) (collider b))
           = GameObject.rotation (scene s (gameObject b))
     \<and> scene (syncBody b s) = scene s \<and> trace (syncBody b s) = trace s"
  using assms
  by (simp add: syncBody_def Let_def isFixed_def isKinematic_def setNextKinematicTranslation_def
      setNextKinematicRotation_def collider_setRotation_def)

theorem syncBody_mirrors_display_witness:
  "nextKinematicTranslation
     (rigidBodies (world (syncBody (hd (bodies (attach 7 KinematicPositionBased True exampleAdapter)))
        (attach 7 KinematicPositionBased True exampleAdapter))) 0) = Some (316, 200)
   \<and> nextKinematicRotation
     (rigidBodies (world (syncBody (hd (bodies (attach 7 KinematicPositionBased True exampleAdapter)))
        (attach 7 KinematicPositionBased True exampleAdapter))) 0) = Some 1
   \<and> Collider.rotation
     (colliders (world (syncBody (hd (bodies (attach 7 KinematicPositionBased True exampleAdapter)))
        (attach 7 KinematicPositionBased True exampleAdapter))) 0) = 1
   \<and> nextKinematicTranslation
     (rigidBodies (world (update exampleRapier (attach 7 KinematicPositionBased True exampleAdapter))) 0)
       = Some (316, 200)"
proof -
  let ?s = "attach 7 KinematicPositionBased True exampleAdapter"
  have 1: "bodyType (rigidBodies (world ?s) (rigidBody (hd (bodies ?s)))) = KinematicPositionBased"
    by (simp add: attach_fields attach_world exampleAdapter_fields)
  have 2: "phaserTransformations (hd (bodies ?s))"
    by (simp add: attach_fields)
  have callback: "nextKinematicTranslation (rigidBodies (world (syncBody (hd (bodies ?s)) ?s)) 0)
        = Some (316, 200)
      \<and> nextKinematicRotation (rigidBodies (world (syncBody (hd (bodies ?s)) ?s)) 0) = Some 1
      \<and> Collider.rotation (colliders (world (syncBody (hd (bodies ?s)) ?s)) 0) = 1"
    using syncBody_mirrors_display[OF 1 2]
    by (simp add: attach_fields exampleAdapter_fields sprite_fields)
  have frame: "nextKinematicTranslation (rigidBodies (world (update exampleRapier ?s)) 0)
        = Some (316, 200)"
    by (simp add: attach_fields attach_world exampleAdapter_fields syncBody_def isFixed_def
        isKinematic_def Let_def update_def renderDebug_def syncBodies_def stepWorld_def
        exampleRapier_def fall_def sprite_fields setNextKinematicTranslation_def
        setNextKinematicRotation_def collider_setRotation_def)
  show ?thesis using callback frame by simp
qed

text \<open>
  C5, as the code has it. For a record whose flag is set and whose body is not
  KinematicPositionBased, the callback depends on the body: a Fixed body is skipped
  before the flag is looked at, so nothing is logged and nothing changes; for any other
  body (Dynamic, KinematicVelocityBased) the console error is the only effect: the
  world, the display objects and \<open>bodies\<close> stay as the simulation step left them.
\<close>

theorem syncBody_mirror_misuse:
  assumes "phaserTransformations b"
    and "bodyType (rigidBodies (world s) (rigidBody b)) \<noteq> KinematicPositionBased"
  shows "syncBody b s =
           (if bodyType (rigidBodies (world s) (rigidBody b)) = Fixed then s
            else s\<lparr>trace := trace s @
                    [ConsoleError ''Phaser transformations are only available for KinematicPositionBased rigid bodies'']\<rparr>)"
  using assms
  by (simp add: syncBody_def Let_def isFixed_def isKinematic_def)

theorem syncBody_mirror_misuse_witness:
  "trace (syncBody (hd (bodies (attach 7 Dynamic True exampleAdapter))) (attach 7 Dynamic True exampleAdapter))
     = [ConsoleError ''Phaser transformations are only available for KinematicPositionBased rigid bodies'']
   \<and> world (syncBody (hd (bodies (attach 7 Dynamic True exampleAdapter))) (attach 7 Dynamic True exampleAdapter))
     = world (attach 7 Dynamic True exampleAdapter)
   \<and> scene (syncBody (hd (bodies (attach 7 Dynamic True exampleAdapter))) (attach 7 Dynamic True exampleAdapter)) 7
     = sprite"
proof -
  let ?s = "attach 7 Dynamic True exampleAdapter"
  have 1: "bodyType (rigidBodies (world ?s) (rigidBody (hd (bodies ?s)))) = Dynamic"
    by (simp add: attach_fields attach_world exampleAdapter_fields)
  have 2: "phaserTransformations (hd (bodies ?s))"
    by (simp add: attach_fields)
  have 3: "bodyType (rigidBodies (world ?s) (rigidBody (hd (bodies ?s)))) \<noteq> KinematicPositionBased"
    by (simp add: 1)
  have e: "syncBody (hd (bodies ?s)) ?s =
      ?s\<lparr>trace := trace ?s @
        [ConsoleError ''Phaser transformations are only available for KinematicPositionBased rigid bodies'']\<rparr>"
    using syncBody_mirror_misuse[OF 2 3] unfolding 1 by simp
  show ?thesis
    unfolding e by (simp add: attach_fields exampleAdapter_fields)
qed

lemma stepWorld_fields:
  "scene (stepWorld eng s) = scene s" "bodies (stepWorld eng s) = bodies s"
  "debugEnabled (stepWorld eng s) = debugEnabled s" "eventQueue (stepWorld eng s) = eventQueue s"
  "world (stepWorld eng s) = step eng (eventQueue s) (world s)"
  by (simp_all add: stepWorld_def Let_def split: option.splits)

lemma renderDebug_fields:
  "scene (renderDebug eng s) = scene s" "bodies (renderDebug eng s) = bodies s"
  "world (renderDebug eng s) = world s" "eventQueue (renderDebug eng s) = eventQueue s"
  "debugEnabled (renderDebug eng s) = debugEnabled s"
  by (simp_all add: renderDebug_def Let_def split: prod.splits)

lemma syncBody_fields:
  "bodies (syncBody b s) = bodies s" "eventQueue (syncBody b s) = eventQueue s"
  "debugEnabled (syncBody b s) = debugEnabled s"
  "bodyType (rigidBodies (world (syncBody b s)) h) = bodyType (rigidBodies (world s) h)"
  by (simp_all add: syncBody_def Let_def setNextKinematicTranslation_def
      setNextKinematicRotation_def collider_setRotation_def)

lemma forEach_syncBody_fields:
  "bodies (forEach bs syncBody s) = bodies s"
  "eventQueue (forEach bs syncBody s) = eventQueue s"
  "debugEnabled (forEach bs syncBody s) = debugEnabled s"
  "bodyType (rigidBodies (world (forEach bs syncBody s)) h) = bodyType (rigidBodies (world s) h)"
  by (induction bs arbitrary: s) (simp_all add: syncBody_fields)

lemma syncBody_scene_kept:
  "gameObject b \<noteq> g \<or> bodyType (rigidBodies (world s) (rigidBody b)) = Fixed
     \<or> phaserTransformations b \<Longrightarrow> scene (syncBody b s) g = scene s g"
  by (auto simp: syncBody_def Let_def isFixed_def)

lemma forEach_syncBody_scene_kept:
  "\<forall>b\<in>set bs. gameObject b = g \<longrightarrow>
       bodyType (rigidBodies (world s) (rigidBody b)) = Fixed \<or> phaserTransformations b
   \<Longrightarrow> scene (forEach bs syncBody s) g = scene s g"
proof (induction bs arbitrary: s)
  case Nil
  then show ?case by simp
next
  case (Cons b bs)
  have 1: "scene (syncBody b s) g = scene s g"
    using Cons.prems by (intro syncBody_scene_kept) auto
  have 2: "\<forall>c\<in>set bs. gameObject c = g \<longrightarrow>
       bodyType (rigidBodies (world (syncBody b s)) (rigidBody c)) = Fixed \<or> phaserTransformations c"
    using Cons.prems by (simp add: syncBody_fields)
  show ?case using Cons.IH[OF 2] 1 by simp
qed

lemma update_fields:
  "bodies (update eng s) = bodies s"
  by (simp add: update_def renderDebug_fields syncBodies_def forEach_syncBody_fields stepWorld_fields)

lemma update_bodyType:
  "\<forall>q w h. bodyType (rigidBodies (step eng q w) h) = bodyType (rigidBodies w h) \<Longrightarrow>
   bodyType (rigidBodies (world (update eng s)) h) = bodyType (rigidBodies (world s) h)"
  by (simp add: update_def renderDebug_fields syncBodies_def forEach_syncBody_fields stepWorld_fields)

lemma update_scene_kept:
  assumes "\<forall>q w h. bodyType (rigidBodies (step eng q w) h) = bodyType (rigidBodies w h)"
    and "\<forall>b\<in>set (bodies s). gameObject b = g \<longrightarrow>
           bodyType (rigidBodies (world s) (rigidBody b)) = Fixed \<or> phaserTransformations b"
  shows "scene (update eng s) g = scene s g"
proof -
  have "\<forall>b\<in>set (bodies (stepWorld eng s)). gameObject b = g \<longrightarrow>
           bodyType (rigidBodies (world (stepWorld eng s)) (rigidBody b)) = Fixed \<or> phaserTransformations b"
    using assms by (simp add: stepWorld_fields)
  from forEach_syncBody_scene_kept[OF this] show ?thesis
    by (simp add: update_def renderDebug_fields syncBodies_def stepWorld_fields)
qed

lemma stepWorld_trace:
  "trace (stepWorld eng s) =
     trace s @ (case eventQueue s of
                  None \<Rightarrow> [WorldStep None]
                | Some q \<Rightarrow> WorldStep (Some q) #
                    map (\<lambda>event. ConsoleLog (fst event))
                      (collisionEvents eng q (step eng (Some q) (world s))))"
  by (simp add: stepWorld_def Let_def split: option.splits)

lemma renderDebug_off: "\<not> debugEnabled s \<Longrightarrow> renderDebug eng s = s"
  by (simp add: renderDebug_def)

lemma syncBody_Fixed:
  "bodyType (rigidBodies (world s) (rigidBody b)) = Fixed \<Longrightarrow> syncBody b s = s"
  by (simp add: syncBody_def isFixed_def)

lemma syncBody_engine_driven:
  "bodyType (rigidBodies (world s) (rigidBody b)) \<noteq> Fixed \<Longrightarrow> \<not> phaserTransformations b \<Longrightarrow>
   syncBody b s =
     s\<lparr>scene := (scene s)
          (gameObject b :=
             (scene s (gameObject b))
               \<lparr>x := fst (translation (rigidBodies (world s) (rigidBody b))),
                y := snd (translation (rigidBodies (world s) (rigidBody b))),
                GameObject.rotation := RigidBody.rotation (rigidBodies (world s) (rigidBody b))\<rparr>)\<rparr>"
  by (simp add: syncBody_def isFixed_def Let_def)

lemma update_plain:
  "\<not> debugEnabled s \<Longrightarrow> update eng s = forEach (bodies s) syncBody (stepWorld eng s)"
  by (simp add: update_def syncBodies_def stepWorld_fields renderDebug_off forEach_syncBody_fields)

text \<open>
  C5 as stated fails for a Fixed body: the flag is set, the body is not
  KinematicPositionBased, and a whole frame logs nothing but the simulation step.
\<close>

theorem mirror_misuse_Fixed_no_diagnostic:
  "phaserTransformations (hd (bodies (attach 7 Fixed True exampleAdapter)))
   \<and> bodyType (rigidBodies (world (attach 7 Fixed True exampleAdapter))
        (rigidBody (hd (bodies (attach 7 Fixed True exampleAdapter))))) \<noteq> KinematicPositionBased
   \<and> trace (syncBody (hd (bodies (attach 7 Fixed True exampleAdapter)))
        (attach 7 Fixed True exampleAdapter)) = []
   \<and> trace (update exampleRapier (attach 7 Fixed True exampleAdapter)) = [WorldStep None]"
proof -
  let ?s = "attach 7 Fixed True exampleAdapter"
  let ?b = "\<lparr>rigidBody = 0, collider = 0, gameObject = 7, phaserTransformations = True\<rparr>"
  have bs: "bodies ?s = [?b]"
    by (simp add: attach_fields exampleAdapter_fields)
  have t: "bodyType (rigidBodies (world ?s) (rigidBody ?b)) = Fixed"
    by (simp add: attach_world exampleAdapter_fields)
  have t1: "bodyType (rigidBodies (world (stepWorld exampleRapier ?s)) (rigidBody ?b)) = Fixed"
    using t by (simp add: stepWorld_fields exampleRapier_keeps_bodyType)
  have d: "\<not> debugEnabled ?s" by (simp add: attach_fields exampleAdapter_fields)
  have u: "update exampleRapier ?s = stepWorld exampleRapier ?s"
    by (simp add: update_plain[OF d] bs syncBody_Fixed[OF t1])
  have "trace (stepWorld exampleRapier ?s) = [WorldStep None]"
    by (simp add: stepWorld_trace attach_fields exampleAdapter_fields)
  with u have 4: "trace (update exampleRapier ?s) = [WorldStep None]" by simp
  have 3: "trace (syncBody ?b ?s) = []"
    by (simp add: syncBody_Fixed[OF t] attach_fields exampleAdapter_fields)
  show ?thesis using 3 4 t by (simp add: bs)
qed

text \<open>
  C9, as the code has it. The callback skips a record whose body is Fixed: it returns
  the state as it is. Over any number of frames a display object keeps its position
  and rotation (all its fields) when every record that refers to it has a Fixed body or
  has the \<open>phaserTransformations\<close> flag set, on a library whose step does not change a
  body's type. The condition is on every record of the display object, because the same
  display object may be attached more than once.
\<close>

theorem fixed_body_display_kept:
  assumes "\<forall>q w h. bodyType (rigidBodies (step eng q w) h) = bodyType (rigidBodies w h)"
    and "\<forall>b\<in>set (bodies s). gameObject b = g \<longrightarrow>
           bodyType (rigidBodies (world s) (rigidBody b)) = Fixed \<or> phaserTransformations b"
  shows "(\<forall>b. bodyType (rigidBodies (world s) (rigidBody b)) = Fixed \<longrightarrow> syncBody b s = s)
     \<and> scene ((update eng ^^ n) s) g = scene s g"
proof -
  have inv: "bodies ((update eng ^^ n) s) = bodies s
     \<and> (\<forall>h. bodyType (rigidBodies (world ((update eng ^^ n) s)) h) = bodyType (rigidBodies (world s) h))
     \<and> scene ((update eng ^^ n) s) g = scene s g"
  proof (induction n)
    case 0
    then show ?case by simp
  next
    case (Suc n)
    let ?t = "(update eng ^^ n) s"
    have h: "\<forall>b\<in>set (bodies ?t). gameObject b = g \<longrightarrow>
           bodyType (rigidBodies (world ?t) (rigidBody b)) = Fixed \<or> phaserTransformations b"
      using Suc.IH assms(2) by simp
    show ?case
      using Suc.IH update_scene_kept[OF assms(1) h] update_bodyType[OF assms(1), of ?t]
      by (simp add: update_fields)
  qed
  have "\<forall>b. bodyType (rigidBodies (world s) (rigidBody b)) = Fixed \<longrightarrow> syncBody b s = s"
    by (simp add: syncBody_def isFixed_def)
  with inv show ?thesis by simp
qed

theorem fixed_body_display_kept_witness:
  "scene ((update exampleRapier ^^ 3) (attach 9 Dynamic False (attach 7 Fixed False exampleAdapter))) 7
     = sprite
   \<and> y (scene ((update exampleRapier ^^ 3)
          (attach 9 Dynamic False (attach 7 Fixed False exampleAdapter))) 9) = 1400"
proof -
  let ?s = "attach 9 Dynamic False (attach 7 Fixed False exampleAdapter)"
  have h: "\<forall>b\<in>set (bodies ?s). gameObject b = 7 \<longrightarrow>
           bodyType (rigidBodies (world ?s) (rigidBody b)) = Fixed \<or> phaserTransformations b"
    by (simp add: attach_fields attach_world exampleAdapter_fields)
  have kept: "scene ((update exampleRapier ^^ 3) ?s) 7 = sprite"
    using fixed_body_display_kept[OF exampleRapier_keeps_bodyType h, of 3]
    by (simp add: attach_fields exampleAdapter_fields)
  have moved: "y (scene ((update exampleRapier ^^ 3) ?s) 9) = 1400"
    by (simp add: numeral_3_eq_3 attach_fields attach_world exampleAdapter_fields syncBody_def
        isFixed_def Let_def update_def renderDebug_def syncBodies_def stepWorld_def
        exampleRapier_fields fall_def sprite_fields)
  show ?thesis using kept moved by simp
qed

text \<open>
  C9 as stated fails when the display object of a Fixed record is also attached with a
  Dynamic body: the Fixed record is skipped, and the other record moves the display
  object.
\<close>

theorem fixed_body_display_moved:
  "gameObject (bodies (attach 7 Dynamic False (attach 7 Fixed False exampleAdapter)) ! 1) = 7
   \<and> bodyType (rigidBodies (world (attach 7 Dynamic False (attach 7 Fixed False exampleAdapter)))
        (rigidBody (bodies (attach 7 Dynamic False (attach 7 Fixed False exampleAdapter)) ! 1))) = Fixed
   \<and> y (scene (attach 7 Dynamic False (attach 7 Fixed False exampleAdapter)) 7) = 200
   \<and> y (scene (update exampleRapier (attach 7 Dynamic False (attach 7 Fixed False exampleAdapter))) 7) = 600"
proof -
  let ?s = "attach 7 Dynamic False (attach 7 Fixed False exampleAdapter)"
  let ?bd = "\<lparr>rigidBody = Suc 0, collider = Suc 0, gameObject = 7, phaserTransformations = False\<rparr>"
  let ?bf = "\<lparr>rigidBody = 0, collider = 0, gameObject = 7, phaserTransformations = False\<rparr>"
  let ?s1 = "stepWorld exampleRapier ?s"
  have bs: "bodies ?s = [?bd, ?bf]"
    by (simp add: attach_fields attach_world exampleAdapter_fields)
  have d: "\<not> debugEnabled ?s" by (simp add: attach_fields exampleAdapter_fields)
  have tf: "bodyType (rigidBodies (world ?s) 0) = Fixed"
    by (simp add: attach_world exampleAdapter_fields)
  have td: "bodyType (rigidBodies (world ?s) (Suc 0)) = Dynamic"
    by (simp add: attach_world exampleAdapter_fields)
  have td1: "bodyType (rigidBodies (world ?s1) (rigidBody ?bd)) \<noteq> Fixed"
    using td by (simp add: stepWorld_fields exampleRapier_keeps_bodyType)
  have m: "\<not> phaserTransformations ?bd" by simp
  have tr: "translation (rigidBodies (world ?s1) (Suc 0)) = (300, 600)"
    by (simp add: stepWorld_fields exampleRapier_fields fall_def attach_world attach_fields
        exampleAdapter_fields sprite_fields)
  let ?s2 = "syncBody ?bd ?s1"
  have s2: "y (scene ?s2 7) = 600 \<and> world ?s2 = world ?s1"
    by (simp add: syncBody_engine_driven[OF td1 m] tr)
  have tf2: "bodyType (rigidBodies (world ?s2) (rigidBody ?bf)) = Fixed"
    using tf s2 by (simp add: stepWorld_fields exampleRapier_keeps_bodyType)
  have u: "update exampleRapier ?s = ?s2"
    by (simp add: update_plain[OF d] bs syncBody_Fixed[OF tf2])
  have y0: "y (scene ?s 7) = 200"
    by (simp add: attach_fields exampleAdapter_fields sprite_fields)
  show ?thesis using u s2 tf y0 by (simp add: bs)
qed

section \<open>The order of the loop\<close>

lemma syncBody_pose_kept:
  "translation (rigidBodies (world (syncBody b t)) h) = translation (rigidBodies (world t) h)"
  "RigidBody.rotation (rigidBodies (world (syncBody b t)) h) = RigidBody.rotation (rigidBodies (world t) h)"
  by (simp_all add: syncBody_def Let_def setNextKinematicTranslation_def
      setNextKinematicRotation_def collider_setRotation_def)

lemma copyPose_again: "copyPose rb (copyPose rb' g) = copyPose rb g"
  by (simp add: copyPose_def)

lemma copyPose_syncBody:
  "copyPose (rigidBodies (world (syncBody b t)) h) g = copyPose (rigidBodies (world t) h) g"
  by (simp add: copyPose_def syncBody_pose_kept)

lemma writers_syncBody: "writers g (world (syncBody b t)) bs = writers g (world t) bs"
  by (simp add: writers_def syncBody_fields)

lemma syncBody_scene:
  "scene (syncBody b t) g =
     (if gameObject b = g \<and> bodyType (rigidBodies (world t) (rigidBody b)) \<noteq> Fixed
         \<and> \<not> phaserTransformations b
      then copyPose (rigidBodies (world t) (rigidBody b)) (scene t g)
      else scene t g)"
  by (simp add: syncBody_def Let_def isFixed_def copyPose_def)

lemma forEach_syncBody_scene:
  "scene (forEach bs syncBody t) g =
     (if writers g (world t) bs = [] then scene t g
      else copyPose (rigidBodies (world t) (rigidBody (last (writers g (world t) bs)))) (scene t g))"
proof (induction bs arbitrary: t)
  case Nil
  then show ?case by (simp add: writers_def)
next
  case (Cons b bs)
  have w: "writers g (world t) (b # bs) =
      (if gameObject b = g \<and> bodyType (rigidBodies (world t) (rigidBody b)) \<noteq> Fixed
          \<and> \<not> phaserTransformations b then [b] else []) @ writers g (world t) bs"
    by (simp add: writers_def)
  show ?case
    by (simp add: Cons.IH writers_syncBody copyPose_syncBody syncBody_scene w copyPose_again)
qed

lemma update_unfolded:
  "update eng s = renderDebug eng (forEach (bodies s) syncBody (stepWorld eng s))"
  by (simp add: update_def syncBodies_def stepWorld_fields)

lemma update_scene:
  "scene (update eng s) g =
     (if writers g (step eng (eventQueue s) (world s)) (bodies s) = [] then scene s g
      else copyPose
             (rigidBodies (step eng (eventQueue s) (world s))
                (rigidBody (last (writers g (step eng (eventQueue s) (world s)) (bodies s)))))
             (scene s g))"
  by (simp add: update_unfolded renderDebug_fields forEach_syncBody_scene stepWorld_fields)

text \<open>
  C8. An attach that returns puts its record at the front of \<open>bodies\<close>, so after a run
  of attaches the records are in reverse order of attachment. \<open>update\<close> steps the world
  and then runs the callback over \<open>bodies\<close> from the front to the back: on the first
  record first, then on the rest, the most recently attached record first. The order
  shows on a display object that several records write: after a frame it has the pose
  of the body of the last of them in \<open>bodies\<close>, the one attached first, and it is left
  as it was when no record writes it.
\<close>

theorem attach_prepends_sync_reversed:
  "(\<forall>p s'. addRigidBody eng g ro s = (Inr p, s') \<longrightarrow>
      (\<exists>b. bodies s' = b # bodies s \<and> gameObject b = g \<and> rigidBody b = rigidBody p
           \<and> collider b = collider p))
   \<and> (\<forall>s'. attachAll eng gs s = Inr s' \<longrightarrow>
        map gameObject (bodies s') = rev (map fst gs) @ map gameObject (bodies s)
      \<and> forEach (bodies s') (\<lambda>b visited. visited @ [gameObject b]) []
          = rev (map fst gs) @ map gameObject (bodies s))
   \<and> syncBodies s = forEach (bodies s) syncBody s
   \<and> update eng s = renderDebug eng (forEach (bodies s) syncBody (stepWorld eng s))
   \<and> (\<forall>b bs. bodies s = b # bs \<longrightarrow>
        update eng s = renderDebug eng (forEach bs syncBody (syncBody b (stepWorld eng s))))
   \<and> scene (update eng s) g =
       (if writers g (step eng (eventQueue s) (world s)) (bodies s) = [] then scene s g
        else copyPose
               (rigidBodies (step eng (eventQueue s) (world s))
                  (rigidBody (last (writers g (step eng (eventQueue s) (world s)) (bodies s)))))
               (scene s g))"
proof -
  have 1: "\<forall>p s'. addRigidBody eng g ro s = (Inr p, s') \<longrightarrow>
      (\<exists>b. bodies s' = b # bodies s \<and> gameObject b = g \<and> rigidBody b = rigidBody p
           \<and> collider b = collider p)"
    using addRigidBody_prepends by blast
  have 2: "\<forall>s'. attachAll eng gs s = Inr s' \<longrightarrow>
        map gameObject (bodies s') = rev (map fst gs) @ map gameObject (bodies s)
      \<and> forEach (bodies s') (\<lambda>b visited. visited @ [gameObject b]) []
          = rev (map fst gs) @ map gameObject (bodies s)"
    using attachAll_order by (auto simp: forEach_record)
  have 3: "syncBodies s = forEach (bodies s) syncBody s" by (simp add: syncBodies_def)
  have 4: "update eng s = renderDebug eng (forEach (bodies s) syncBody (stepWorld eng s))"
    by (rule update_unfolded)
  have 5: "\<forall>b bs. bodies s = b # bs \<longrightarrow>
        update eng s = renderDebug eng (forEach bs syncBody (syncBody b (stepWorld eng s)))"
    by (simp add: update_unfolded)
  show ?thesis using 1 2 3 4 5 update_scene[of eng s g] by blast
qed

theorem attach_prepends_sync_reversed_witness:
  "(\<exists>s'. attachAll exampleRapier [(3, None), (5, None)] exampleAdapter = Inr s'
      \<and> map gameObject (bodies s') = [5, 3]
      \<and> forEach (bodies s') (\<lambda>b visited. visited @ [gameObject b]) [] = [5, 3])
   \<and> map rigidBody (bodies (attach 7 KinematicVelocityBased False (attach 7 Dynamic False exampleAdapter)))
       = [1, 0]
   \<and> translation (rigidBodies (world (stepWorld exampleRapier
         (attach 7 KinematicVelocityBased False (attach 7 Dynamic False exampleAdapter)))) 1) = (300, 200)
   \<and> translation (rigidBodies (world (stepWorld exampleRapier
         (attach 7 KinematicVelocityBased False (attach 7 Dynamic False exampleAdapter)))) 0) = (300, 600)
   \<and> y (scene (update exampleRapier
         (attach 7 KinematicVelocityBased False (attach 7 Dynamic False exampleAdapter))) 7) = 600"
proof -
  have "\<exists>s'. attachAll exampleRapier [(3, None), (5, None)] exampleAdapter = Inr s'"
    by (simp add: addRigidBody_def addRidgiBody_def configOf_def colliderDescFor_def
        createCollider_def createRigidBody_def Let_def split: prod.splits)
  then obtain s' where 1: "attachAll exampleRapier [(3, None), (5, None)] exampleAdapter = Inr s'" ..
  have a: "map gameObject (bodies s') = [5, 3]
      \<and> forEach (bodies s') (\<lambda>b visited. visited @ [gameObject b]) [] = [5, 3]"
    using attach_prepends_sync_reversed[of exampleRapier 3 None exampleAdapter "[(3, None), (5, None)]"] 1
    by (simp add: exampleAdapter_fields)
  let ?s = "attach 7 KinematicVelocityBased False (attach 7 Dynamic False exampleAdapter)"
  let ?bk = "\<lparr>rigidBody = Suc 0, collider = Suc 0, gameObject = 7, phaserTransformations = False\<rparr>"
  let ?bd = "\<lparr>rigidBody = 0, collider = 0, gameObject = 7, phaserTransformations = False\<rparr>"
  let ?w = "step exampleRapier (eventQueue ?s) (world ?s)"
  have bs: "bodies ?s = [?bk, ?bd]"
    by (simp add: attach_fields attach_world exampleAdapter_fields)
  have tk: "bodyType (rigidBodies ?w (Suc 0)) = KinematicVelocityBased"
    by (simp add: exampleRapier_keeps_bodyType attach_world exampleAdapter_fields)
  have td: "bodyType (rigidBodies ?w 0) = Dynamic"
    by (simp add: exampleRapier_keeps_bodyType attach_world exampleAdapter_fields)
  have ws: "writers 7 ?w (bodies ?s) = [?bk, ?bd]"
    by (simp add: writers_def bs tk td)
  have pk: "translation (rigidBodies ?w (Suc 0)) = (300, 200)"
    by (simp add: exampleRapier_fields fall_def attach_world attach_fields
        exampleAdapter_fields sprite_fields)
  have pd: "translation (rigidBodies ?w 0) = (300, 600)"
    by (simp add: exampleRapier_fields fall_def attach_world attach_fields
        exampleAdapter_fields sprite_fields)
  have sc: "scene (update exampleRapier ?s) 7 = copyPose (rigidBodies ?w 0) (scene ?s 7)"
    using attach_prepends_sync_reversed[of exampleRapier 7 None ?s "[]", THEN conjunct2,
        THEN conjunct2, THEN conjunct2, THEN conjunct2, THEN conjunct2]
    unfolding ws by simp
  have y: "y (scene (update exampleRapier ?s) 7) = 600"
    by (simp add: sc copyPose_def pd)
  show ?thesis
    using 1 a y pk pd by (simp add: bs stepWorld_fields)
qed

section \<open>Debug rendering\<close>

lemma debugLines_from:
  "debugLines v c (4 * j) =
     concat (map (\<lambda>k. [LineStyle 2
                          (GetColor (times255 (elemAt c (8 * k))) (times255 (elemAt c (8 * k + 1)))
                             (times255 (elemAt c (8 * k + 2))))
                          (elemAt c (8 * k + 3)),
                        LineBetween (elemAt v (4 * k)) (elemAt v (4 * k + 1))
                          (elemAt v (4 * k + 2)) (elemAt v (4 * k + 3))])
               [j ..< (length v + 3) div 4])"
proof (induction "(length v + 3) div 4 - j" arbitrary: j)
  case 0
  then have "\<not> 4 * j < length v" by linarith
  with 0 show ?case by (subst debugLines.simps) simp
next
  case (Suc d)
  then have lt: "j < (length v + 3) div 4" by linarith
  then have i: "4 * j < length v" by linarith
  have d: "d = (length v + 3) div 4 - Suc j" using Suc.hyps(2) by linarith
  have e: "4 * j + 4 = 4 * Suc j" "4 * j * 2 = 8 * j" by simp_all
  show ?case
    using Suc.hyps(1)[OF d] i
    by (subst debugLines.simps) (simp add: Let_def e upt_conv_Cons[OF lt] del: mult_Suc_right)
qed

text \<open>
  C7, as the code has it. The loop draws one segment for every four floats of the vertex
  buffer; the colour index is twice the vertex index, so segment \<open>k\<close>, with end points
  at the vertex floats \<open>4k .. 4k+3\<close>, is drawn in the colour of the colour floats
  \<open>8k .. 8k+3\<close> (red, green and blue times 255, the fourth as alpha): the colour
  buffer holds eight floats for each segment, of which the loop uses the first four.
  The debug block of \<open>update\<close> clears the surface and makes exactly these calls.
\<close>

theorem debug_colour_of_segment:
  "debugLines v c 0 =
     concat (map (\<lambda>k. [LineStyle 2
                          (GetColor (times255 (elemAt c (8 * k))) (times255 (elemAt c (8 * k + 1)))
                             (times255 (elemAt c (8 * k + 2))))
                          (elemAt c (8 * k + 3)),
                        LineBetween (elemAt v (4 * k)) (elemAt v (4 * k + 1))
                          (elemAt v (4 * k + 2)) (elemAt v (4 * k + 3))])
               [0 ..< (length v + 3) div 4])
   \<and> trace (renderDebug eng s) =
       trace s @ (if debugEnabled s
                  then GraphicsClear #
                       debugLines (fst (debugRender eng (world s))) (snd (debugRender eng (world s))) 0
                  else [])"
  using debugLines_from[of v c 0] by (simp add: renderDebug_def split: prod.splits)

text \<open>
  C7 as stated fails on two segments: the second segment is not drawn in the colour of
  the colour floats 4 .. 7, but in that of the floats 8 .. 11.
\<close>

theorem debug_colour_not_in_lockstep:
  "debugLines exampleVertices exampleColors 0 =
     [LineStyle 2 (GetColor (Some 255) (Some 0) (Some 0)) (Some 1),
      LineBetween (Some 0) (Some 0) (Some 10) (Some 10),
      LineStyle 2 (GetColor (Some 0) (Some 0) (Some 255)) (Some 1),
      LineBetween (Some 20) (Some 20) (Some 30) (Some 30)]
   \<and> (elemAt exampleColors 4, elemAt exampleColors 5, elemAt exampleColors 6, elemAt exampleColors 7)
       = (Some 0, Some 1, Some 0, Some 0.5)
   \<and> debugLines exampleVertices exampleColors 0 ! 2 \<noteq>
       LineStyle 2
         (GetColor (times255 (elemAt exampleColors 4)) (times255 (elemAt exampleColors 5))
            (times255 (elemAt exampleColors 6)))
         (elemAt exampleColors 7)"
  by (simp add: debugLines.simps exampleVertices_def exampleColors_def elemAt_def times255_def Let_def)

section \<open>\<open>destroy\<close>\<close>

lemma indexOf_found:
  "find P bs = Some b \<Longrightarrow> indexOf bs b = int (length (takeWhile (\<lambda>c. \<not> P c) bs))"
proof (induction bs)
  case Nil
  then show ?case by simp
next
  case (Cons c bs)
  show ?case
  proof (cases "P c")
    case True
    with Cons.prems show ?thesis by simp
  next
    case False
    with Cons.prems have f: "find P bs = Some b" by simp
    then have "P b" by (auto simp: find_Some_iff)
    with False have "c \<noteq> b" by auto
    with Cons.IH[OF f] False show ?thesis by (simp add: Let_def)
  qed
qed

lemma find_None_dropWhile:
  "find P bs = None \<Longrightarrow> takeWhile (\<lambda>c. \<not> P c) bs @ tl (dropWhile (\<lambda>c. \<not> P c) bs) = bs"
  by (induction bs) (auto split: if_splits)

lemma splice1_takeWhile:
  "splice1 (length (takeWhile Q bs)) bs = takeWhile Q bs @ tl (dropWhile Q bs)"
  by (induction bs) (auto simp: splice1_def drop_Suc)

lemma length_removal:
  assumes "dropWhile Q bs \<noteq> []"
  shows "length (takeWhile Q bs @ tl (dropWhile Q bs)) = length bs - 1"
proof -
  have "length (takeWhile Q bs) + length (dropWhile Q bs) = length bs"
    by (metis length_append takeWhile_dropWhile_id)
  with assms show ?thesis by (cases "dropWhile Q bs") auto
qed

lemma destroy_found:
  assumes "find (\<lambda>b. gameObject b = g) (bodies s) = Some b"
  shows "destroy g s =
     s\<lparr>world := removeRigidBody (rigidBody b) (world s),
       trace := trace s @ [RemoveRigidBody (rigidBody b), GameObjectDestroy g],
       scene := (scene s)(g := (scene s g)\<lparr>destroyed := True\<rparr>),
       bodies := takeWhile (\<lambda>c. gameObject c \<noteq> g) (bodies s)
                 @ tl (dropWhile (\<lambda>c. gameObject c \<noteq> g) (bodies s))\<rparr>"
proof -
  have g: "gameObject b = g" using assms by (auto simp: find_Some_iff)
  have i: "indexOf (bodies s) b = int (length (takeWhile (\<lambda>c. gameObject c \<noteq> g) (bodies s)))"
    using indexOf_found[OF assms] by simp
  show ?thesis
    by (simp add: destroy_def assms bodies_remove_def gameObject_destroy_def
        world_removeRigidBody_def i g splice1_takeWhile Let_def)
qed

lemma find_after_removal:
  "length (filter P bs) \<le> 1 \<Longrightarrow>
     find P (takeWhile (\<lambda>c. \<not> P c) bs @ tl (dropWhile (\<lambda>c. \<not> P c) bs)) = None"
  by (induction bs) (auto simp: find_None_iff filter_empty_conv)

lemma destroy_bodies:
  "bodies (destroy g s) =
     takeWhile (\<lambda>c. gameObject c \<noteq> g) (bodies s) @ tl (dropWhile (\<lambda>c. gameObject c \<noteq> g) (bodies s))"
proof (cases "find (\<lambda>b. gameObject b = g) (bodies s)")
  case None
  then show ?thesis by (simp add: destroy_def find_None_dropWhile)
next
  case (Some b)
  then show ?thesis by (simp add: destroy_found)
qed

text \<open>
  C6, as the code has it. \<open>destroy\<close> looks for the first record of the display object.
  Without one it does nothing. With one it removes the record's body from the world,
  then destroys the display object, then takes that one record out of \<open>bodies\<close>, which
  gets one shorter; the records before and after it stay in order. A second \<open>destroy\<close>
  of the same display object does nothing when the display object had at most one
  record.
\<close>

theorem destroy_first_match_once:
  "(find (\<lambda>b. gameObject b = g) (bodies s) = None \<longrightarrow> destroy g s = s)
   \<and> (\<forall>b. find (\<lambda>b. gameObject b = g) (bodies s) = Some b \<longrightarrow>
         destroy g s =
           bodies_remove b (gameObject_destroy b (world_removeRigidBody b s))
       \<and> trace (destroy g s) = trace s @ [RemoveRigidBody (rigidBody b), GameObjectDestroy g]
       \<and> bodyHandles (world (destroy g s)) = removeAll (rigidBody b) (bodyHandles (world s))
       \<and> destroyed (scene (destroy g s) g)
       \<and> bodies (destroy g s) =
           takeWhile (\<lambda>c. gameObject c \<noteq> g) (bodies s)
           @ tl (dropWhile (\<lambda>c. gameObject c \<noteq> g) (bodies s))
       \<and> length (bodies (destroy g s)) = length (bodies s) - 1)
   \<and> (length (filter (\<lambda>b. gameObject b = g) (bodies s)) \<le> 1 \<longrightarrow>
         destroy g (destroy g s) = destroy g s)"
proof -
  have 1: "find (\<lambda>b. gameObject b = g) (bodies s) = None \<longrightarrow> destroy g s = s"
    by (simp add: destroy_def)
  have 2: "destroy g s = bodies_remove b (gameObject_destroy b (world_removeRigidBody b s))
       \<and> trace (destroy g s) = trace s @ [RemoveRigidBody (rigidBody b), GameObjectDestroy g]
       \<and> bodyHandles (world (destroy g s)) = removeAll (rigidBody b) (bodyHandles (world s))
       \<and> destroyed (scene (destroy g s) g)
       \<and> bodies (destroy g s) =
           takeWhile (\<lambda>c. gameObject c \<noteq> g) (bodies s)
           @ tl (dropWhile (\<lambda>c. gameObject c \<noteq> g) (bodies s))
       \<and> length (bodies (destroy g s)) = length (bodies s) - 1"
    if f: "find (\<lambda>b. gameObject b = g) (bodies s) = Some b" for b
  proof -
    have "dropWhile (\<lambda>c. gameObject c \<noteq> g) (bodies s) \<noteq> []"
      using f by (force simp: find_Some_iff dropWhile_eq_Nil_conv)
    then have l: "length (takeWhile (\<lambda>c. gameObject c \<noteq> g) (bodies s)
           @ tl (dropWhile (\<lambda>c. gameObject c \<noteq> g) (bodies s))) = length (bodies s) - 1"
      by (rule length_removal)
    have c: "destroy g s = bodies_remove b (gameObject_destroy b (world_removeRigidBody b s))"
      by (simp add: destroy_def f)
    have r: "trace (destroy g s) = trace s @ [RemoveRigidBody (rigidBody b), GameObjectDestroy g]
       \<and> bodyHandles (world (destroy g s)) = removeAll (rigidBody b) (bodyHandles (world s))
       \<and> destroyed (scene (destroy g s) g)
       \<and> bodies (destroy g s) =
           takeWhile (\<lambda>c. gameObject c \<noteq> g) (bodies s)
           @ tl (dropWhile (\<lambda>c. gameObject c \<noteq> g) (bodies s))"
      by (simp add: destroy_found[OF f] removeRigidBody_def)
    show ?thesis using c r l by simp
  qed
  have 3: "destroy g (destroy g s) = destroy g s"
    if c: "length (filter (\<lambda>b. gameObject b = g) (bodies s)) \<le> 1"
  proof (cases "find (\<lambda>b. gameObject b = g) (bodies s)")
    case None
    then show ?thesis by (simp add: destroy_def)
  next
    case (Some b)
    have "find (\<lambda>b. gameObject b = g) (bodies (destroy g s)) = None"
      using find_after_removal[OF c] by (simp add: destroy_found[OF Some])
    then show ?thesis by (simp add: destroy_def[of g "destroy g s"])
  qed
  show ?thesis using 1 2 3 by blast
qed

theorem destroy_first_match_once_witness:
  "length (bodies (attach 9 Dynamic False (attach 7 Dynamic False exampleAdapter))) = 2
   \<and> trace (destroy 7 (attach 9 Dynamic False (attach 7 Dynamic False exampleAdapter)))
       = [RemoveRigidBody 0, GameObjectDestroy 7]
   \<and> map gameObject (bodies (destroy 7 (attach 9 Dynamic False (attach 7 Dynamic False exampleAdapter)))) = [9]
   \<and> destroy 7 (destroy 7 (attach 9 Dynamic False (attach 7 Dynamic False exampleAdapter)))
       = destroy 7 (attach 9 Dynamic False (attach 7 Dynamic False exampleAdapter))
   \<and> destroy 8 (attach 9 Dynamic False (attach 7 Dynamic False exampleAdapter))
       = attach 9 Dynamic False (attach 7 Dynamic False exampleAdapter)"
proof -
  let ?s = "attach 9 Dynamic False (attach 7 Dynamic False exampleAdapter)"
  let ?b7 = "\<lparr>rigidBody = 0, collider = 0, gameObject = 7, phaserTransformations = False\<rparr>"
  let ?b9 = "\<lparr>rigidBody = Suc 0, collider = Suc 0, gameObject = 9, phaserTransformations = False\<rparr>"
  have bs: "bodies ?s = [?b9, ?b7]"
    by (simp add: attach_fields attach_world exampleAdapter_fields)
  have f7: "find (\<lambda>b. gameObject b = 7) (bodies ?s) = Some ?b7" by (simp add: bs)
  have f8: "find (\<lambda>b. gameObject b = 8) (bodies ?s) = None" by (simp add: bs)
  have c7: "length (filter (\<lambda>b. gameObject b = 7) (bodies ?s)) \<le> 1" by (simp add: bs)
  note t7 = destroy_first_match_once[of 7 ?s]
  note t8 = destroy_first_match_once[of 8 ?s]
  have 1: "trace (destroy 7 ?s) = trace ?s @ [RemoveRigidBody (rigidBody ?b7), GameObjectDestroy 7]"
    and 2: "bodies (destroy 7 ?s) =
           takeWhile (\<lambda>c. gameObject c \<noteq> 7) (bodies ?s)
           @ tl (dropWhile (\<lambda>c. gameObject c \<noteq> 7) (bodies ?s))"
    using t7 f7 by blast+
  have 3: "destroy 7 (destroy 7 ?s) = destroy 7 ?s" using t7 c7 by blast
  have 4: "destroy 8 ?s = ?s" using t8 f8 by blast
  have tr: "trace (destroy 7 ?s) = [RemoveRigidBody 0, GameObjectDestroy 7]"
    using 1 by (simp add: attach_fields exampleAdapter_fields)
  have bd: "map gameObject (bodies (destroy 7 ?s)) = [9]"
    unfolding 2 bs by simp
  show ?thesis using tr bd 3 4 by (simp add: bs)
qed

text \<open>
  C6 as stated fails for a display object attached twice: each \<open>destroy\<close> finds a record
  and removes it, so the second call shortens \<open>bodies\<close> again.
\<close>

theorem destroy_twice_removes_two:
  "length (bodies (attach 7 Dynamic False (attach 7 Dynamic False exampleAdapter))) = 2
   \<and> length (bodies (destroy 7 (attach 7 Dynamic False (attach 7 Dynamic False exampleAdapter)))) = 1
   \<and> length (bodies (destroy 7 (destroy 7
        (attach 7 Dynamic False (attach 7 Dynamic False exampleAdapter))))) = 0"
  by (simp add: destroy_bodies attach_fields exampleAdapter_fields)

section \<open>The event queue\<close>

text \<open>
  C10. The function \<open>free\<close> that \<open>createEventQueue\<close> returns works on the variable
  \<open>eventQueue\<close>, not on the queue returned with it. After two calls of
  \<open>createEventQueue\<close>, the first call's \<open>free\<close> frees the second queue (the first is never
  freed) and clears the variable, so the next frame steps the world without a queue;
  after that, either \<open>free\<close> does nothing, as any returned \<open>free\<close> does on a state
  without a queue.
\<close>

theorem release_acts_on_current_queue:
  "(case createEventQueue s of
      ((q1, free1), s1) \<Rightarrow>
        (case createEventQueue s1 of
           ((q2, free2), s2) \<Rightarrow>
             q2 \<noteq> q1 \<and> eventQueue s1 = Some q1 \<and> eventQueue s2 = Some q2
           \<and> eventQueue (free1 s2) = None
           \<and> trace (free1 s2) = trace s @ [NewEventQueue q1, NewEventQueue q2, EventQueueFree q2]
           \<and> free1 (free1 s2) = free1 s2 \<and> free2 (free1 s2) = free1 s2
           \<and> world (stepWorld eng s2) = step eng (Some q2) (world s)
           \<and> stepWorld eng (free1 s2) =
               (free1 s2)\<lparr>world := step eng None (world s),
                          trace := trace (free1 s2) @ [WorldStep None]\<rparr>))
   \<and> snd (fst (createEventQueue s)) (t\<lparr>eventQueue := None\<rparr>) = t\<lparr>eventQueue := None\<rparr>"
  by (simp add: createEventQueue_def free_def stepWorld_def Let_def)

end
